theory Spec2Isabelle
  imports Complex_Main
begin

section \<open>Data model (models.py)\<close>

text \<open>
  A naive \<open>datetime\<close> is modelled by its number of microseconds since the epoch, which is
  the resolution of Python's \<open>datetime\<close>; \<open>timedelta(days=n)\<close> and a number of seconds are
  the corresponding numbers of microseconds. Python's and SQL's integers are \<open>int\<close>;
  a \<open>Float\<close> column is only copied by the operations below, never computed with, and is
  kept as a \<open>real\<close>. A \<open>String\<close> status column is a \<open>string\<close>, compared with the
  literals the source compares it with.
\<close>

type_synonym datetime = int

definition timedelta_days :: "int \<Rightarrow> int" where
  "timedelta_days n = n * 86400000000"

definition segundos :: "int \<Rightarrow> int" where
  "segundos n = n * 1000000"

text \<open>\<open>class Produto\<close> (the image path, which no operation below reads, is left out).\<close>

record produto =
  p_id :: int
  nome_produto :: string
  preco :: real
  p_loja_id :: int
  quantidade_estoque :: int

text \<open>\<open>class Carrinho\<close>: one cart line.\<close>

record carrinho =
  c_id :: int
  c_cliente_id :: int
  c_produto_id :: int
  c_quantidade :: int

text \<open>\<open>class ReservaProduto\<close>; \<open>data_limite\<close> is the only nullable column.\<close>

record reserva_produto =
  rp_id :: int
  rp_cliente_id :: int
  rp_loja_id :: int
  data_reserva :: datetime
  rp_status :: string
  data_limite :: "datetime option"

text \<open>\<open>class ItemReserva\<close>.\<close>

record item_reserva =
  ir_id :: int
  reserva_id :: int
  ir_produto_id :: int
  ir_quantidade :: int
  preco_unitario :: real

text \<open>\<open>class Servico\<close> (description and price left out).\<close>

record servico =
  s_id :: int
  nome_servico :: string
  s_loja_id :: int

text \<open>\<open>class ServicoHorario\<close>: a bookable slot.\<close>

record servico_horario =
  sh_id :: int
  sh_servico_id :: int
  horario :: datetime
  is_disponivel :: bool

text \<open>\<open>class ReservaServico\<close>: a service appointment.\<close>

record reserva_servico =
  rs_id :: int
  rs_cliente_id :: int
  rs_loja_id :: int
  rs_servico_id :: int
  data_horario :: datetime
  rs_status :: string

text \<open>
  The database: one list of rows per table, in insertion order. Of the customers and the
  stores only the primary keys are kept.
\<close>

record db =
  clientes :: "int list"
  lojas :: "int list"
  produtos :: "produto list"
  carrinho :: "carrinho list"
  reservas_produtos :: "reserva_produto list"
  itens_reserva :: "item_reserva list"
  servicos :: "servico list"
  servicos_horarios :: "servico_horario list"
  reservas_servicos :: "reserva_servico list"

text \<open>
  Every \<open>return jsonify(detail=...), 4xx\<close> of the handlers below is a constructor, and so is
  the exception raised by an attribute access on \<open>None\<close> and the one raised by the
  database for a null in a \<open>nullable=False\<close> column.
\<close>

datatype erro =
    LojaNaoEncontrada
  | DadosIncompletos
  | ArquivoNaoEnviado
  | ArquivoInvalido
  | ProdutoNaoEncontrado
  | ReservaNaoEncontrada
  | StatusInvalido
  | PrazoExpirado
  | ServicoNaoEncontrado
  | ClienteNaoEncontrado
  | FaltaJson
  | FaltaProdutoId
  | FaltaHorarioId
  | OutraLoja
  | ItemNaoEstaNoCarrinho
  | CarrinhoVazio
  | ProdutoNoCarrinhoNaoExiste
  | LojasDiferentes
  | EstoqueInsuficiente string
  | HorarioIndisponivel
  | AgendamentoMesmoDia
  | JaCanceladaOuRejeitada
  | MenosDeUmaHora
  | StatusNaoCancelavel
  | AttributeError
  | IntegrityError

text \<open>
  The primary key the database gives a new row: larger than every key of the table
  (1 for an empty table).
\<close>

definition novo_id :: "int list \<Rightarrow> int" where
  "novo_id ids = fold max ids 0 + 1"

text \<open>
  The database engine, which \<open>database.py\<close> chooses and which is not among the sources.
  The handlers below depend on it in two places: the value that the database gives the
  expression \<open>data_reserva + timedelta(days=4) < agora\<close> of the sweep's second query, as a
  function of \<open>data_reserva\<close> and \<open>agora\<close>, and whether it enforces foreign keys.
  PostgreSQL adds the interval to the timestamp and enforces foreign keys. SQLite, as
  SQLAlchemy uses it, stores a datetime and an interval as text, adds two texts as the
  integers they begin with and orders every integer below every text, so that the
  expression is true of every row; it enforces no foreign key unless it is asked to.
\<close>

record banco =
  mais_4_dias_menor :: "datetime \<Rightarrow> datetime \<Rightarrow> bool"
  chaves_estrangeiras :: bool

definition postgresql :: banco where
  "postgresql =
     \<lparr>mais_4_dias_menor = (\<lambda>data_reserva agora. data_reserva + timedelta_days 4 < agora),
      chaves_estrangeiras = True\<rparr>"

definition sqlite :: banco where
  "sqlite = \<lparr>mais_4_dias_menor = (\<lambda>data_reserva agora. True), chaves_estrangeiras = False\<rparr>"

section \<open>Product reservations: pickup\<close>

definition alterar_status :: "int \<Rightarrow> string \<Rightarrow> reserva_produto list \<Rightarrow> reserva_produto list" where
  "alterar_status rid s rs = map (\<lambda>r. if rp_id r = rid then r\<lparr>rp_status := s\<rparr> else r) rs"

text \<open>\<open>marcar_retirada(loja_id, reserva_id)\<close>: the store's pickup.\<close>

definition marcar_retirada :: "int \<Rightarrow> int \<Rightarrow> db \<Rightarrow> db \<times> (erro + unit)" where
  "marcar_retirada loja_id rid d =
     (case find (\<lambda>r. rp_id r = rid \<and> rp_loja_id r = loja_id) (reservas_produtos d) of
        None \<Rightarrow> (d, Inl ReservaNaoEncontrada)
      | Some reserva \<Rightarrow>
          if rp_status reserva \<noteq> ''RESERVADO'' then (d, Inl StatusInvalido)
          else (d\<lparr>reservas_produtos :=
                    alterar_status (rp_id reserva) ''RETIRADO'' (reservas_produtos d)\<rparr>, Inr ()))"

text \<open>\<open>cliente_marcar_retirada(cliente_id, reserva_id)\<close>; \<open>agora\<close> is \<open>datetime.utcnow()\<close>.\<close>

definition cliente_marcar_retirada :: "int \<Rightarrow> int \<Rightarrow> datetime \<Rightarrow> db \<Rightarrow> db \<times> (erro + unit)" where
  "cliente_marcar_retirada cliente_id rid agora d =
     (case find (\<lambda>r. rp_id r = rid \<and> rp_cliente_id r = cliente_id) (reservas_produtos d) of
        None \<Rightarrow> (d, Inl ReservaNaoEncontrada)
      | Some reserva \<Rightarrow>
          if rp_status reserva \<noteq> ''RESERVADO'' then (d, Inl StatusInvalido)
          else if agora > data_reserva reserva + timedelta_days 4 then (d, Inl PrazoExpirado)
          else (d\<lparr>reservas_produtos :=
                    alterar_status (rp_id reserva) ''RETIRADO'' (reservas_produtos d)\<rparr>, Inr ()))"

text \<open>The status a reservation id has in the database.\<close>

definition status_de :: "db \<Rightarrow> int \<Rightarrow> string option" where
  "status_de d rid = map_option rp_status (find (\<lambda>r. rp_id r = rid) (reservas_produtos d))"



section \<open>Products\<close>

text \<open>
  \<open>cadastrar_produto_com_imagem(loja_id)\<close>. The form fields arrive as strings: \<open>nome\<close> is
  the name (empty when absent), \<open>preco_f\<close> and \<open>qtd\<close> are \<open>None\<close> when the field is
  absent or empty and otherwise the values \<open>float(preco)\<close> and \<open>int(quantidade_estoque)\<close>;
  \<open>arquivo\<close> is the content type of the uploaded file, if one was sent. The answer
  carries the new product's id.
\<close>

definition cadastrar_produto_com_imagem ::
  "int \<Rightarrow> string \<Rightarrow> real option \<Rightarrow> int option \<Rightarrow> string option \<Rightarrow> db \<Rightarrow> db \<times> (erro + int)" where
  "cadastrar_produto_com_imagem loja_id nome preco_f qtd arquivo d =
     (if loja_id \<notin> set (lojas d) then (d, Inl LojaNaoEncontrada)
      else case (preco_f, qtd) of
        (Some pr, Some q) \<Rightarrow>
          if nome = [] then (d, Inl DadosIncompletos)
          else (case arquivo of
                  None \<Rightarrow> (d, Inl ArquivoNaoEnviado)
                | Some content_type \<Rightarrow>
                    if take 6 content_type \<noteq> ''image/'' then (d, Inl ArquivoInvalido)
                    else
                      (let novo_produto =
                             \<lparr>p_id = novo_id (map p_id (produtos d)), nome_produto = nome,
                              preco = pr, p_loja_id = loja_id, quantidade_estoque = q\<rparr>
                       in (d\<lparr>produtos := produtos d @ [novo_produto]\<rparr>, Inr (p_id novo_produto))))
      | _ \<Rightarrow> (d, Inl DadosIncompletos))"

text \<open>
  \<open>remover_produto(loja_id, produto_id)\<close>. Where foreign keys are enforced, the commit of
  the delete raises for a product that a cart line or a line item references, and nothing
  is deleted.
\<close>

definition remover_produto :: "banco \<Rightarrow> int \<Rightarrow> int \<Rightarrow> db \<Rightarrow> db \<times> (erro + unit)" where
  "remover_produto b loja_id produto_id d =
     (case find (\<lambda>p. p_id p = produto_id \<and> p_loja_id p = loja_id) (produtos d) of
        None \<Rightarrow> (d, Inl ProdutoNaoEncontrado)
      | Some produto \<Rightarrow>
          if chaves_estrangeiras b \<and>
             (p_id produto \<in> set (map c_produto_id (carrinho d)) \<or>
              p_id produto \<in> set (map ir_produto_id (itens_reserva d)))
          then (d, Inl IntegrityError)
          else (d\<lparr>produtos := filter (\<lambda>p. p_id p \<noteq> p_id produto) (produtos d)\<rparr>, Inr ()))"

text \<open>
  \<open>produto.quantidade_estoque += delta\<close> on the row that
  \<open>db.query(Produto).filter(Produto.id == produto_id).first()\<close> returns; the attribute
  access raises when there is no such row.
\<close>

definition alterar_estoque :: "int \<Rightarrow> int \<Rightarrow> produto list \<Rightarrow> erro + produto list" where
  "alterar_estoque produto_id delta ps =
     (case find (\<lambda>p. p_id p = produto_id) ps of
        None \<Rightarrow> Inl AttributeError
      | Some produto \<Rightarrow>
          Inr (map (\<lambda>p. if p_id p = p_id produto
                         then p\<lparr>quantidade_estoque := quantidade_estoque p + delta\<rparr> else p) ps))"

text \<open>The stock the product with a given id has.\<close>

definition estoque_de :: "produto list \<Rightarrow> int \<Rightarrow> int option" where
  "estoque_de ps produto_id = map_option quantidade_estoque (find (\<lambda>p. p_id p = produto_id) ps)"

section \<open>Cart\<close>

text \<open>
  The check of \<open>adicionar_item_carrinho\<close> that the product belongs to the store of the
  customer's first cart line.
\<close>

definition verificar_loja_carrinho :: "carrinho list \<Rightarrow> produto \<Rightarrow> produto list \<Rightarrow> erro + unit" where
  "verificar_loja_carrinho itens_existentes produto ps =
     (case itens_existentes of
        [] \<Rightarrow> Inr ()
      | primeiro_item # _ \<Rightarrow>
          (case find (\<lambda>p. p_id p = c_produto_id primeiro_item) ps of
             None \<Rightarrow> Inl AttributeError
           | Some produto_primeiro_item \<Rightarrow>
               if p_loja_id produto_primeiro_item \<noteq> p_loja_id produto then Inl OutraLoja
               else Inr ()))"

text \<open>
  \<open>adicionar_item_carrinho(cliente_id)\<close>. The JSON body is \<open>None\<close> when it is absent or
  empty, and otherwise gives the fields \<open>produto_id\<close> and \<open>quantidade\<close>, each of which may be
  absent; \<open>quantidade\<close> defaults to 1.
\<close>

definition adicionar_item_carrinho ::
  "int \<Rightarrow> (int option \<times> int option) option \<Rightarrow> db \<Rightarrow> db \<times> (erro + unit)" where
  "adicionar_item_carrinho cliente_id dados d =
     (case dados of
        None \<Rightarrow> (d, Inl FaltaJson)
      | Some (None, _) \<Rightarrow> (d, Inl FaltaProdutoId)
      | Some (Some produto_id, q) \<Rightarrow>
          (let quantidade = (case q of None \<Rightarrow> 1 | Some n \<Rightarrow> n) in
           if produto_id = 0 then (d, Inl FaltaProdutoId)
           else if cliente_id \<notin> set (clientes d) then (d, Inl ClienteNaoEncontrado)
           else case find (\<lambda>p. p_id p = produto_id) (produtos d) of
             None \<Rightarrow> (d, Inl ProdutoNaoEncontrado)
           | Some produto \<Rightarrow>
               (case verificar_loja_carrinho
                       (filter (\<lambda>c. c_cliente_id c = cliente_id) (carrinho d)) produto (produtos d) of
                  Inl e \<Rightarrow> (d, Inl e)
                | Inr _ \<Rightarrow>
                    (case find (\<lambda>c. c_cliente_id c = cliente_id \<and> c_produto_id c = produto_id)
                            (carrinho d) of
                       Some item_existente \<Rightarrow>
                         (d\<lparr>carrinho :=
                              map (\<lambda>c. if c_id c = c_id item_existente
                                        then c\<lparr>c_quantidade := c_quantidade c + quantidade\<rparr>
                                        else c) (carrinho d)\<rparr>, Inr ())
                     | None \<Rightarrow>
                         (d\<lparr>carrinho := carrinho d @
                              [\<lparr>c_id = novo_id (map c_id (carrinho d)), c_cliente_id = cliente_id,
                                c_produto_id = produto_id, c_quantidade = quantidade\<rparr>]\<rparr>,
                          Inr ())))))"

text \<open>
  \<open>remover_item_carrinho(cliente_id)\<close>; the query argument \<open>produto_id\<close> is \<open>None\<close> when
  it is absent or empty.
\<close>

definition remover_item_carrinho :: "int \<Rightarrow> int option \<Rightarrow> db \<Rightarrow> db \<times> (erro + unit)" where
  "remover_item_carrinho cliente_id arg d =
     (case arg of
        None \<Rightarrow> (d, Inl FaltaProdutoId)
      | Some produto_id \<Rightarrow>
          if cliente_id \<notin> set (clientes d) then (d, Inl ClienteNaoEncontrado)
          else case find (\<lambda>c. c_cliente_id c = cliente_id \<and> c_produto_id c = produto_id)
                      (carrinho d) of
            None \<Rightarrow> (d, Inl ItemNaoEstaNoCarrinho)
          | Some item \<Rightarrow> (d\<lparr>carrinho := filter (\<lambda>c. c_id c \<noteq> c_id item) (carrinho d)\<rparr>, Inr ()))"

section \<open>Checkout\<close>

text \<open>
  The first loop of \<open>finalizar_carrinho\<close>: every line's product exists, all products are
  of one store (\<open>loja_id\<close> starts as \<open>None\<close>), and no line asks for more than the stock.
\<close>

fun validar_carrinho :: "carrinho list \<Rightarrow> produto list \<Rightarrow> int option \<Rightarrow> erro + int option" where
  "validar_carrinho [] ps loja_id = Inr loja_id"
| "validar_carrinho (item # itens) ps loja_id =
     (case find (\<lambda>p. p_id p = c_produto_id item) ps of
        None \<Rightarrow> Inl ProdutoNoCarrinhoNaoExiste
      | Some produto \<Rightarrow>
          if loja_id \<noteq> None \<and> loja_id \<noteq> Some (p_loja_id produto) then Inl LojasDiferentes
          else if quantidade_estoque produto < c_quantidade item
          then Inl (EstoqueInsuficiente (nome_produto produto))
          else validar_carrinho itens ps (Some (p_loja_id produto)))"

text \<open>
  The second loop, which commits after every line: the result is the committed products
  table and the exception, if one was raised.
\<close>

fun abater_estoque :: "carrinho list \<Rightarrow> produto list \<Rightarrow> produto list \<times> erro option" where
  "abater_estoque [] ps = (ps, None)"
| "abater_estoque (item # itens) ps =
     (case alterar_estoque (c_produto_id item) (- c_quantidade item) ps of
        Inl e \<Rightarrow> (ps, Some e)
      | Inr ps' \<Rightarrow> abater_estoque itens ps')"

text \<open>The third loop: one \<open>ItemReserva\<close> per cart line, added to the table \<open>tab\<close>.\<close>

fun criar_itens :: "int \<Rightarrow> carrinho list \<Rightarrow> produto list \<Rightarrow> item_reserva list \<Rightarrow> erro + item_reserva list" where
  "criar_itens rid [] ps tab = Inr tab"
| "criar_itens rid (item # itens) ps tab =
     (case find (\<lambda>p. p_id p = c_produto_id item) ps of
        None \<Rightarrow> Inl AttributeError
      | Some produto \<Rightarrow>
          criar_itens rid itens ps
            (tab @ [\<lparr>ir_id = novo_id (map ir_id tab), reserva_id = rid, ir_produto_id = p_id produto,
                     ir_quantidade = c_quantidade item, preco_unitario = preco produto\<rparr>]))"

text \<open>
  \<open>finalizar_carrinho(cliente_id)\<close>; \<open>agora\<close> is \<open>datetime.utcnow()\<close>. The answer carries
  \<open>reserva_id\<close> and \<open>data_limite\<close>.
\<close>

definition finalizar_carrinho :: "int \<Rightarrow> datetime \<Rightarrow> db \<Rightarrow> db \<times> (erro + int \<times> datetime option)" where
  "finalizar_carrinho cliente_id agora d =
     (let itens_carrinho = filter (\<lambda>c. c_cliente_id c = cliente_id) (carrinho d) in
      if itens_carrinho = [] then (d, Inl CarrinhoVazio)
      else case validar_carrinho itens_carrinho (produtos d) None of
        Inl e \<Rightarrow> (d, Inl e)
      | Inr loja \<Rightarrow>
          (case abater_estoque itens_carrinho (produtos d) of
             (ps, Some e) \<Rightarrow> (d\<lparr>produtos := ps\<rparr>, Inl e)
           | (ps, None) \<Rightarrow>
               (case loja of
                  None \<Rightarrow> (d\<lparr>produtos := ps\<rparr>, Inl IntegrityError)
                | Some loja_id \<Rightarrow>
                    (let reserva =
                           \<lparr>rp_id = novo_id (map rp_id (reservas_produtos d)),
                            rp_cliente_id = cliente_id, rp_loja_id = loja_id,
                            data_reserva = agora, rp_status = ''RESERVADO'',
                            data_limite = Some (agora + timedelta_days 2)\<rparr>;
                         d1 = d\<lparr>produtos := ps, reservas_produtos := reservas_produtos d @ [reserva]\<rparr>
                     in case criar_itens (rp_id reserva) itens_carrinho ps (itens_reserva d) of
                          Inl e \<Rightarrow> (d1, Inl e)
                        | Inr tab \<Rightarrow>
                            (d1\<lparr>itens_reserva := tab,
                                carrinho := filter (\<lambda>c. c_id c \<notin> set (map c_id itens_carrinho))
                                              (carrinho d)\<rparr>,
                             Inr (rp_id reserva, data_limite reserva))))))"

section \<open>Expiry sweep\<close>

text \<open>
  The inner loop of \<open>cancelar_expiradas\<close> over \<open>reserva.itens\<close>; nothing of it is
  committed when a product is missing.
\<close>

fun devolver_estoque :: "item_reserva list \<Rightarrow> produto list \<Rightarrow> erro + produto list" where
  "devolver_estoque [] ps = Inr ps"
| "devolver_estoque (item # itens) ps =
     (case alterar_estoque (ir_produto_id item) (ir_quantidade item) ps of
        Inl e \<Rightarrow> Inl e
      | Inr ps' \<Rightarrow> devolver_estoque itens ps')"

text \<open>
  The outer loop over the reservations a query returned, with its commit after every
  reservation: the result is the committed database and the exception, if one was raised.
\<close>

fun cancelar_reservas :: "reserva_produto list \<Rightarrow> db \<Rightarrow> db \<times> erro option" where
  "cancelar_reservas [] d = (d, None)"
| "cancelar_reservas (reserva # reservas) d =
     (case devolver_estoque (filter (\<lambda>i. reserva_id i = rp_id reserva) (itens_reserva d))
             (produtos d) of
        Inl e \<Rightarrow> (d, Some e)
      | Inr ps \<Rightarrow>
          cancelar_reservas reservas
            (d\<lparr>reservas_produtos := alterar_status (rp_id reserva) ''CANCELADO'' (reservas_produtos d),
               produtos := ps\<rparr>))"

text \<open>
  The filters of the two queries. The first compares two datetimes (a null \<open>data_limite\<close>
  is never before \<open>agora\<close>); the second is the expression
  \<open>data_reserva + timedelta(days=4) < agora\<close> as the database engine evaluates it.
\<close>

definition expirada_2dias :: "int \<Rightarrow> datetime \<Rightarrow> reserva_produto \<Rightarrow> bool" where
  "expirada_2dias loja_id agora r \<longleftrightarrow>
     rp_loja_id r = loja_id \<and> rp_status r = ''RESERVADO'' \<and>
     (case data_limite r of None \<Rightarrow> False | Some limite \<Rightarrow> limite < agora)"

definition expirada_4dias :: "banco \<Rightarrow> int \<Rightarrow> datetime \<Rightarrow> reserva_produto \<Rightarrow> bool" where
  "expirada_4dias b loja_id agora r \<longleftrightarrow>
     rp_loja_id r = loja_id \<and> rp_status r = ''RESERVADO'' \<and>
     mais_4_dias_menor b (data_reserva r) agora"

text \<open>\<open>cancelar_expiradas(loja_id)\<close>; \<open>agora\<close> is \<open>datetime.utcnow()\<close>.\<close>

definition cancelar_expiradas :: "banco \<Rightarrow> int \<Rightarrow> datetime \<Rightarrow> db \<Rightarrow> db \<times> (erro + unit)" where
  "cancelar_expiradas b loja_id agora d =
     (case cancelar_reservas (filter (expirada_2dias loja_id agora) (reservas_produtos d)) d of
        (d1, Some e) \<Rightarrow> (d1, Inl e)
      | (d1, None) \<Rightarrow>
          (case cancelar_reservas (filter (expirada_4dias b loja_id agora) (reservas_produtos d1)) d1 of
             (d2, Some e) \<Rightarrow> (d2, Inl e)
           | (d2, None) \<Rightarrow> (d2, Inr ())))"

section \<open>Service slots\<close>

text \<open>
  The loop of \<open>criar_horarios_servico\<close>. \<open>fromisoformat\<close> is Python's
  \<open>datetime.fromisoformat\<close> (\<open>None\<close> for the \<open>ValueError\<close>). \<open>tab\<close> is the slots table as
  the database has it and \<open>novos\<close> are the rows added so far: the session is made by
  \<open>SessionLocal\<close> of \<open>database.py\<close>, and whether its queries flush (and so see) the added
  rows is the flag \<open>autoflush\<close>.
\<close>

fun adicionar_horarios ::
  "bool \<Rightarrow> (string \<Rightarrow> datetime option) \<Rightarrow> int \<Rightarrow> string list \<Rightarrow>
   servico_horario list \<Rightarrow> servico_horario list \<Rightarrow> servico_horario list" where
  "adicionar_horarios autoflush fromisoformat servico_id [] tab novos = novos"
| "adicionar_horarios autoflush fromisoformat servico_id (h_str # horarios) tab novos =
     (case fromisoformat h_str of
        None \<Rightarrow> adicionar_horarios autoflush fromisoformat servico_id horarios tab novos
      | Some h \<Rightarrow>
          (case find (\<lambda>x. sh_servico_id x = servico_id \<and> horario x = h)
                  (if autoflush then tab @ novos else tab) of
             Some existe \<Rightarrow> adicionar_horarios autoflush fromisoformat servico_id horarios tab novos
           | None \<Rightarrow>
               adicionar_horarios autoflush fromisoformat servico_id horarios tab
                 (novos @ [\<lparr>sh_id = novo_id (map sh_id (tab @ novos)), sh_servico_id = servico_id,
                            horario = h, is_disponivel = True\<rparr>])))"

text \<open>
  \<open>criar_horarios_servico(loja_id, servico_id)\<close>; the body is \<open>None\<close> when it is absent, empty
  or without the key \<open>horarios\<close>, and otherwise the list of strings under that key.
\<close>

definition criar_horarios_servico ::
  "bool \<Rightarrow> (string \<Rightarrow> datetime option) \<Rightarrow> int \<Rightarrow> int \<Rightarrow> string list option \<Rightarrow> db \<Rightarrow> db \<times> (erro + unit)" where
  "criar_horarios_servico autoflush fromisoformat loja_id servico_id corpo d =
     (case corpo of
        None \<Rightarrow> (d, Inl FaltaJson)
      | Some horarios \<Rightarrow>
          (case find (\<lambda>s. s_id s = servico_id \<and> s_loja_id s = loja_id) (servicos d) of
             None \<Rightarrow> (d, Inl ServicoNaoEncontrado)
           | Some servico \<Rightarrow>
               (d\<lparr>servicos_horarios := servicos_horarios d @
                     adicionar_horarios autoflush fromisoformat servico_id horarios
                       (servicos_horarios d) []\<rparr>, Inr ())))"

section \<open>Service appointments\<close>

text \<open>
  \<open>horario.date()\<close> as the number of the day, and the two bounds of the \<open>between\<close>:
  \<open>datetime(year, month, day, 0, 0, 0)\<close> and \<open>datetime(year, month, day, 23, 59, 59)\<close>.
\<close>

definition date :: "datetime \<Rightarrow> int" where
  "date t = t div timedelta_days 1"

definition inicio_do_dia :: "int \<Rightarrow> datetime" where
  "inicio_do_dia dia = timedelta_days dia"

definition fim_do_dia :: "int \<Rightarrow> datetime" where
  "fim_do_dia dia = timedelta_days dia + segundos (23 * 3600 + 59 * 60 + 59)"

text \<open>
  \<open>agendar_servico(cliente_id, servico_id)\<close>. The body is \<open>None\<close> when the request has no
  JSON (the handler then raises on \<open>data.get\<close>), and otherwise gives \<open>horario_id\<close>, which
  may be absent. The answer carries the new appointment's id.
\<close>

definition agendar_servico :: "int \<Rightarrow> int \<Rightarrow> int option option \<Rightarrow> db \<Rightarrow> db \<times> (erro + int)" where
  "agendar_servico cliente_id servico_id dados d =
     (case dados of
        None \<Rightarrow> (d, Inl AttributeError)
      | Some None \<Rightarrow> (d, Inl FaltaHorarioId)
      | Some (Some horario_id) \<Rightarrow>
          if horario_id = 0 then (d, Inl FaltaHorarioId)
          else if cliente_id \<notin> set (clientes d) then (d, Inl ClienteNaoEncontrado)
          else case find (\<lambda>s. s_id s = servico_id) (servicos d) of
            None \<Rightarrow> (d, Inl ServicoNaoEncontrado)
          | Some servico \<Rightarrow>
              (case find (\<lambda>x. sh_id x = horario_id \<and> sh_servico_id x = servico_id \<and> is_disponivel x)
                      (servicos_horarios d) of
                 None \<Rightarrow> (d, Inl HorarioIndisponivel)
               | Some horario_disponivel \<Rightarrow>
                   (let data_alvo = date (horario horario_disponivel);
                        reservas_mesmo_dia =
                          filter (\<lambda>r. rs_cliente_id r = cliente_id \<and>
                                       inicio_do_dia data_alvo \<le> data_horario r \<and>
                                       data_horario r \<le> fim_do_dia data_alvo)
                            (reservas_servicos d)
                    in if reservas_mesmo_dia \<noteq> [] then (d, Inl AgendamentoMesmoDia)
                       else
                         (let nova_reserva =
                                \<lparr>rs_id = novo_id (map rs_id (reservas_servicos d)),
                                 rs_cliente_id = cliente_id, rs_loja_id = s_loja_id servico,
                                 rs_servico_id = servico_id,
                                 data_horario = horario horario_disponivel,
                                 rs_status = ''PENDENTE''\<rparr>
                          in (d\<lparr>reservas_servicos := reservas_servicos d @ [nova_reserva],
                                servicos_horarios :=
                                  map (\<lambda>x. if sh_id x = sh_id horario_disponivel
                                            then x\<lparr>is_disponivel := False\<rparr> else x)
                                    (servicos_horarios d)\<rparr>,
                              Inr (rs_id nova_reserva))))))"

text \<open>
  \<open>cancelar_reserva(cliente_id, reserva_id)\<close>; \<open>agora\<close> is \<open>datetime.now()\<close>, and
  \<open>diferenca.total_seconds() < 3600\<close> is compared in microseconds.
\<close>

definition cancelar_reserva :: "int \<Rightarrow> int \<Rightarrow> datetime \<Rightarrow> db \<Rightarrow> db \<times> (erro + unit)" where
  "cancelar_reserva cliente_id rid agora d =
     (case find (\<lambda>r. rs_id r = rid \<and> rs_cliente_id r = cliente_id) (reservas_servicos d) of
        None \<Rightarrow> (d, Inl ReservaNaoEncontrada)
      | Some reserva \<Rightarrow>
          if rs_status reserva \<in> set [''CANCELADO'', ''REJEITADA''] then (d, Inl JaCanceladaOuRejeitada)
          else if data_horario reserva - agora < segundos 3600 then (d, Inl MenosDeUmaHora)
          else if rs_status reserva \<notin> set [''PENDENTE'', ''ACEITO''] then (d, Inl StatusNaoCancelavel)
          else
            (let rs' = map (\<lambda>r. if rs_id r = rs_id reserva then r\<lparr>rs_status := ''CANCELADO''\<rparr> else r)
                         (reservas_servicos d)
             in case find (\<lambda>x. sh_servico_id x = rs_servico_id reserva \<and>
                                horario x = data_horario reserva) (servicos_horarios d) of
                  None \<Rightarrow> (d\<lparr>reservas_servicos := rs'\<rparr>, Inr ())
                | Some horario_disponivel \<Rightarrow>
                    (d\<lparr>reservas_servicos := rs',
                       servicos_horarios :=
                         map (\<lambda>x. if sh_id x = sh_id horario_disponivel
                                   then x\<lparr>is_disponivel := True\<rparr> else x)
                           (servicos_horarios d)\<rparr>, Inr ())))"

section \<open>Predicates and quantities of the statements\<close>

text \<open>The pair (customer, product) of a cart line, and: no two lines share it.\<close>

definition chave_carrinho :: "carrinho \<Rightarrow> int \<times> int" where
  "chave_carrinho c = (c_cliente_id c, c_produto_id c)"

definition carrinho_unico :: "db \<Rightarrow> bool" where
  "carrinho_unico d \<longleftrightarrow> distinct (map chave_carrinho (carrinho d))"

text \<open>A slot of the service at the timestamp is in the list.\<close>

definition existe_horario :: "int \<Rightarrow> datetime \<Rightarrow> servico_horario list \<Rightarrow> bool" where
  "existe_horario servico_id t xs \<longleftrightarrow>
     (\<exists>x\<in>set xs. sh_servico_id x = servico_id \<and> horario x = t)"

text \<open>The sum of the quantities of the cart lines of a product.\<close>

definition quantidade_pedida :: "carrinho list \<Rightarrow> int \<Rightarrow> int" where
  "quantidade_pedida itens produto_id =
     sum_list (map c_quantidade (filter (\<lambda>i. c_produto_id i = produto_id) itens))"

text \<open>Two lines reference existing products of different stores.\<close>

definition lojas_misturadas :: "carrinho list \<Rightarrow> produto list \<Rightarrow> bool" where
  "lojas_misturadas itens ps \<longleftrightarrow>
     (\<exists>i\<in>set itens. \<exists>j\<in>set itens. \<exists>p q.
        find (\<lambda>x. p_id x = c_produto_id i) ps = Some p \<and>
        find (\<lambda>x. p_id x = c_produto_id j) ps = Some q \<and> p_loja_id p \<noteq> p_loja_id q)"

text \<open>A line asks for more than the stock of its product, whose name is \<open>nome\<close>.\<close>

definition falta_estoque :: "carrinho list \<Rightarrow> produto list \<Rightarrow> string \<Rightarrow> bool" where
  "falta_estoque itens ps nome \<longleftrightarrow>
     (\<exists>i\<in>set itens. \<exists>p. find (\<lambda>x. p_id x = c_produto_id i) ps = Some p \<and>
        nome_produto p = nome \<and> quantidade_estoque p < c_quantidade i)"

text \<open>The reservation is one that the sweep of the store cancels at \<open>agora\<close>.\<close>

definition expirada :: "banco \<Rightarrow> int \<Rightarrow> datetime \<Rightarrow> reserva_produto \<Rightarrow> bool" where
  "expirada b loja_id agora r \<longleftrightarrow>
     expirada_2dias loja_id agora r \<or> expirada_4dias b loja_id agora r"

text \<open>
  The quantity of a product in the line items of the reservations whose ids are in
  \<open>rids\<close>, and in those of the reservations that the sweep cancels.
\<close>

definition quantidade_reservada :: "item_reserva list \<Rightarrow> int list \<Rightarrow> int \<Rightarrow> int" where
  "quantidade_reservada itens rids produto_id =
     sum_list (map ir_quantidade
       (filter (\<lambda>i. ir_produto_id i = produto_id \<and> reserva_id i \<in> set rids) itens))"

definition quantidade_devolvida :: "banco \<Rightarrow> int \<Rightarrow> datetime \<Rightarrow> db \<Rightarrow> int \<Rightarrow> int" where
  "quantidade_devolvida b loja_id agora d produto_id =
     quantidade_reservada (itens_reserva d)
       (map rp_id (filter (expirada b loja_id agora) (reservas_produtos d))) produto_id"

text \<open>Every line item of the reservation references a product whose id is in \<open>pids\<close>.\<close>

definition itens_ok :: "item_reserva list \<Rightarrow> int list \<Rightarrow> reserva_produto \<Rightarrow> bool" where
  "itens_ok itens pids r \<longleftrightarrow>
     (\<forall>i\<in>set itens. reserva_id i = rp_id r \<longrightarrow> ir_produto_id i \<in> set pids)"

text \<open>The reservations table with the reservations of the given ids cancelled.\<close>

definition marcar_canceladas :: "int list \<Rightarrow> reserva_produto list \<Rightarrow> reserva_produto list" where
  "marcar_canceladas rids rs =
     map (\<lambda>r. if rp_id r \<in> set rids then r\<lparr>rp_status := ''CANCELADO''\<rparr> else r) rs"

section \<open>Sequences of operations\<close>

text \<open>
  The requests that read or write products, carts, reservations and line items, with the
  arguments of their handlers, and the database each leaves with the engine \<open>b\<close>.
\<close>

datatype operacao =
    CadastrarProduto int string "real option" "int option" "string option"
  | RemoverProduto int int
  | AdicionarItem int "(int option \<times> int option) option"
  | RemoverItem int "int option"
  | Finalizar int datetime
  | RetiradaLoja int int
  | RetiradaCliente int int datetime
  | CancelarExpiradas int datetime

fun executar :: "banco \<Rightarrow> operacao \<Rightarrow> db \<Rightarrow> db" where
  "executar b (CadastrarProduto loja_id nome preco_f qtd arquivo) d =
     fst (cadastrar_produto_com_imagem loja_id nome preco_f qtd arquivo d)"
| "executar b (RemoverProduto loja_id produto_id) d = fst (remover_produto b loja_id produto_id d)"
| "executar b (AdicionarItem cliente_id dados) d = fst (adicionar_item_carrinho cliente_id dados d)"
| "executar b (RemoverItem cliente_id arg) d = fst (remover_item_carrinho cliente_id arg d)"
| "executar b (Finalizar cliente_id agora) d = fst (finalizar_carrinho cliente_id agora d)"
| "executar b (RetiradaLoja loja_id rid) d = fst (marcar_retirada loja_id rid d)"
| "executar b (RetiradaCliente cliente_id rid agora) d =
     fst (cliente_marcar_retirada cliente_id rid agora d)"
| "executar b (CancelarExpiradas loja_id agora) d = fst (cancelar_expiradas b loja_id agora d)"

text \<open>
  A registration does not give a negative stock quantity, and an addition to the cart
  does not give a negative quantity.
\<close>

fun entrada_valida :: "operacao \<Rightarrow> bool" where
  "entrada_valida (CadastrarProduto loja_id nome preco_f (Some q) arquivo) \<longleftrightarrow> 0 \<le> q"
| "entrada_valida (AdicionarItem cliente_id (Some (produto_id, Some q))) \<longleftrightarrow> 0 \<le> q"
| "entrada_valida _ \<longleftrightarrow> True"

text \<open>
  A database with the given customers and stores and nothing else, and: no product has a
  negative stock.
\<close>

definition db_inicial :: "int list \<Rightarrow> int list \<Rightarrow> db" where
  "db_inicial cs ls =
     \<lparr>clientes = cs, lojas = ls, produtos = [], carrinho = [], reservas_produtos = [],
      itens_reserva = [], servicos = [], servicos_horarios = [], reservas_servicos = []\<rparr>"

definition estoque_nao_negativo :: "db \<Rightarrow> bool" where
  "estoque_nao_negativo d \<longleftrightarrow> (\<forall>p\<in>set (produtos d). 0 \<le> quantidade_estoque p)"

text \<open>
  What the operations keep: product ids are distinct, no stock is negative, a cart has one
  line per customer and product, and no cart line or line item has a negative quantity.
\<close>

definition invariante_estoque :: "db \<Rightarrow> bool" where
  "invariante_estoque d \<longleftrightarrow>
     distinct (map p_id (produtos d)) \<and> estoque_nao_negativo d \<and> carrinho_unico d \<and>
     (\<forall>c\<in>set (carrinho d). 0 \<le> c_quantidade c) \<and>
     (\<forall>i\<in>set (itens_reserva d). 0 \<le> ir_quantidade i)"

section \<open>Example databases\<close>

text \<open>
  Two stores and two customers. Store 1 sells products 1 and 2, store 2 sells product 3.
  Reservation 1 is four days and one microsecond old at \<open>agora_ex\<close>, reservation 2 was
  made at \<open>agora_ex\<close>, reservation 3 has been picked up.
\<close>

definition agora_ex :: datetime where
  "agora_ex = timedelta_days 20000"

definition db_ex :: db where
  "db_ex = \<lparr>
     clientes = [1, 2],
     lojas = [1, 2],
     produtos =
       [\<lparr>p_id = 1, nome_produto = ''pneu'', preco = 50, p_loja_id = 1, quantidade_estoque = 5\<rparr>,
        \<lparr>p_id = 2, nome_produto = ''selim'', preco = 30, p_loja_id = 1, quantidade_estoque = 2\<rparr>,
        \<lparr>p_id = 3, nome_produto = ''capacete'', preco = 80, p_loja_id = 2, quantidade_estoque = 4\<rparr>],
     carrinho =
       [\<lparr>c_id = 1, c_cliente_id = 1, c_produto_id = 1, c_quantidade = 3\<rparr>,
        \<lparr>c_id = 2, c_cliente_id = 2, c_produto_id = 3, c_quantidade = 1\<rparr>,
        \<lparr>c_id = 3, c_cliente_id = 1, c_produto_id = 2, c_quantidade = 2\<rparr>],
     reservas_produtos =
       [\<lparr>rp_id = 1, rp_cliente_id = 1, rp_loja_id = 1,
         data_reserva = agora_ex - timedelta_days 4 - 1, rp_status = ''RESERVADO'',
         data_limite = Some (agora_ex - timedelta_days 2 - 1)\<rparr>,
        \<lparr>rp_id = 2, rp_cliente_id = 2, rp_loja_id = 1,
         data_reserva = agora_ex, rp_status = ''RESERVADO'',
         data_limite = Some (agora_ex + timedelta_days 2)\<rparr>,
        \<lparr>rp_id = 3, rp_cliente_id = 2, rp_loja_id = 2,
         data_reserva = agora_ex - timedelta_days 9, rp_status = ''RETIRADO'',
         data_limite = Some (agora_ex - timedelta_days 7)\<rparr>],
     itens_reserva =
       [\<lparr>ir_id = 1, reserva_id = 1, ir_produto_id = 1, ir_quantidade = 2, preco_unitario = 45\<rparr>,
        \<lparr>ir_id = 2, reserva_id = 1, ir_produto_id = 2, ir_quantidade = 1, preco_unitario = 30\<rparr>,
        \<lparr>ir_id = 3, reserva_id = 2, ir_produto_id = 1, ir_quantidade = 1, preco_unitario = 50\<rparr>,
        \<lparr>ir_id = 4, reserva_id = 3, ir_produto_id = 3, ir_quantidade = 1, preco_unitario = 80\<rparr>],
     servicos = [\<lparr>s_id = 1, nome_servico = ''revisao'', s_loja_id = 1\<rparr>],
     servicos_horarios = [],
     reservas_servicos = []\<rparr>"

text \<open>
  A service with two slots on the same day, the first booked by appointment 1, and two
  more appointments of the same customer on the following days.
\<close>

definition db_serv :: db where
  "db_serv = \<lparr>
     clientes = [1], lojas = [1], produtos = [], carrinho = [], reservas_produtos = [],
     itens_reserva = [],
     servicos = [\<lparr>s_id = 1, nome_servico = ''revisao'', s_loja_id = 1\<rparr>],
     servicos_horarios =
       [\<lparr>sh_id = 1, sh_servico_id = 1, horario = timedelta_days 20000 + segundos 36000,
         is_disponivel = False\<rparr>,
        \<lparr>sh_id = 2, sh_servico_id = 1, horario = timedelta_days 20000 + segundos 50000,
         is_disponivel = True\<rparr>],
     reservas_servicos =
       [\<lparr>rs_id = 1, rs_cliente_id = 1, rs_loja_id = 1, rs_servico_id = 1,
         data_horario = timedelta_days 20000 + segundos 36000, rs_status = ''PENDENTE''\<rparr>,
        \<lparr>rs_id = 2, rs_cliente_id = 1, rs_loja_id = 1, rs_servico_id = 1,
         data_horario = timedelta_days 20001 + segundos 36000, rs_status = ''ACEITO''\<rparr>,
        \<lparr>rs_id = 3, rs_cliente_id = 1, rs_loja_id = 1, rs_servico_id = 1,
         data_horario = timedelta_days 20002 + segundos 36000, rs_status = ''REJEITADA''\<rparr>]\<rparr>"

text \<open>
  A customer and a service with two free slots on the same day: slot 1 half a second
  before midnight, slot 2 at ten in the morning.
\<close>

definition db_agenda :: db where
  "db_agenda = \<lparr>
     clientes = [1], lojas = [1], produtos = [], carrinho = [], reservas_produtos = [],
     itens_reserva = [],
     servicos = [\<lparr>s_id = 1, nome_servico = ''revisao'', s_loja_id = 1\<rparr>],
     servicos_horarios =
       [\<lparr>sh_id = 1, sh_servico_id = 1,
         horario = timedelta_days 20000 + segundos 86399 + 500000, is_disponivel = True\<rparr>,
        \<lparr>sh_id = 2, sh_servico_id = 1,
         horario = timedelta_days 20000 + segundos 36000, is_disponivel = True\<rparr>],
     reservas_servicos = []\<rparr>"

text \<open>A stand-in for \<open>datetime.fromisoformat\<close> that reads three strings.\<close>

definition fromiso_ex :: "string \<Rightarrow> datetime option" where
  "fromiso_ex s =
     (if s = ''2024-10-04T10:00:00'' then Some (timedelta_days 20000 + segundos 36000)
      else if s = ''2024-10-04T15:00:00'' then Some (timedelta_days 20000 + segundos 54000)
      else if s = ''2024-10-05T10:00:00'' then Some (timedelta_days 20001 + segundos 36000)
      else None)"

text \<open>
  The example database with two more cart lines: customer 2 now has products of the
  stores 2 and 1, and customer 3 asks for three of product 2, of which there are two.
\<close>

definition db_misto :: db where
  "db_misto = db_ex\<lparr>clientes := [1, 2, 3],
     carrinho := carrinho db_ex @
       [\<lparr>c_id = 4, c_cliente_id = 2, c_produto_id = 2, c_quantidade = 1\<rparr>,
        \<lparr>c_id = 5, c_cliente_id = 3, c_produto_id = 2, c_quantidade = 3\<rparr>]\<rparr>"

text \<open>
  The example database with a fourth reservation of store 1, five days old and without
  \<open>data_limite\<close>, for four of product 2.
\<close>

definition db_varredura :: db where
  "db_varredura = db_ex\<lparr>
     reservas_produtos := reservas_produtos db_ex @
       [\<lparr>rp_id = 4, rp_cliente_id = 2, rp_loja_id = 1,
         data_reserva = agora_ex - timedelta_days 5, rp_status = ''RESERVADO'',
         data_limite = None\<rparr>],
     itens_reserva := itens_reserva db_ex @
       [\<lparr>ir_id = 5, reserva_id = 4, ir_produto_id = 2, ir_quantidade = 4, preco_unitario = 30\<rparr>]\<rparr>"

text \<open>
  The sweep's example database after the store has removed product 2, which line items of
  the reservations 1 and 4 reference, with an engine that does not enforce foreign keys.
\<close>

definition db_sem_produto :: db where
  "db_sem_produto = fst (remover_produto sqlite 1 2 db_varredura)"

section \<open>Lemmas\<close>

lemma find_alterar_status:
  "find (\<lambda>r. rp_id r = rid) (alterar_status rid' s rs) =
     map_option (\<lambda>r. if rid = rid' then r\<lparr>rp_status := s\<rparr> else r) (find (\<lambda>r. rp_id r = rid) rs)"
  by (induction rs) (auto simp: alterar_status_def)

lemma status_de_alterar:
  "status_de (d\<lparr>reservas_produtos := alterar_status rid' s (reservas_produtos d)\<rparr>) rid =
     (if rid = rid' then map_option (\<lambda>_. s) (status_de d rid) else status_de d rid)"
  by (simp add: status_de_def find_alterar_status option.map_comp comp_def)

lemma find_Some_pred: "find P xs = Some x \<Longrightarrow> P x \<and> x \<in> set xs"
  by (induction xs) (auto split: if_splits)

lemma find_weaken:
  "find (\<lambda>x. P x \<and> Q x) xs = Some x \<Longrightarrow> \<exists>y. find P xs = Some y"
  by (induction xs) (auto split: if_splits)

section \<open>Pickup by the customer and by the store\<close>

text \<open>
  C6. Let \<open>r\<close> be the reservation that the customer's handler and the store's handler both
  find under the id \<open>rid\<close>. If the status of \<open>r\<close> is not RESERVADO, both handlers answer
  with the status error and leave the database as it is. If it is RESERVADO, the
  customer's handler answers with the four-day error (database unchanged) when
  \<open>agora > data_reserva + 4 days\<close>, and otherwise succeeds and the reservation's status is
  RETIRADO afterwards; the store's handler, which reads no clock, succeeds and sets
  RETIRADO. A successful pickup changes no other reservation's status and no other table.
\<close>

theorem retirada_cliente_e_loja:
  assumes c: "find (\<lambda>x. rp_id x = rid \<and> rp_cliente_id x = cid) (reservas_produtos d) = Some r"
      and l: "find (\<lambda>x. rp_id x = rid \<and> rp_loja_id x = lid) (reservas_produtos d) = Some r"
  shows "(rp_status r \<noteq> ''RESERVADO'' \<longrightarrow>
            cliente_marcar_retirada cid rid agora d = (d, Inl StatusInvalido) \<and>
            marcar_retirada lid rid d = (d, Inl StatusInvalido)) \<and>
         (rp_status r = ''RESERVADO'' \<longrightarrow>
            (agora > data_reserva r + timedelta_days 4 \<longrightarrow>
               cliente_marcar_retirada cid rid agora d = (d, Inl PrazoExpirado)) \<and>
            (agora \<le> data_reserva r + timedelta_days 4 \<longrightarrow>
               snd (cliente_marcar_retirada cid rid agora d) = Inr () \<and>
               status_de (fst (cliente_marcar_retirada cid rid agora d)) rid = Some ''RETIRADO'' \<and>
               (\<forall>x. x \<noteq> rid \<longrightarrow>
                  status_de (fst (cliente_marcar_retirada cid rid agora d)) x = status_de d x) \<and>
               fst (cliente_marcar_retirada cid rid agora d) =
                 d\<lparr>reservas_produtos :=
                     reservas_produtos (fst (cliente_marcar_retirada cid rid agora d))\<rparr>) \<and>
            snd (marcar_retirada lid rid d) = Inr () \<and>
            status_de (fst (marcar_retirada lid rid d)) rid = Some ''RETIRADO'' \<and>
            (\<forall>x. x \<noteq> rid \<longrightarrow> status_de (fst (marcar_retirada lid rid d)) x = status_de d x) \<and>
            fst (marcar_retirada lid rid d) =
              d\<lparr>reservas_produtos := reservas_produtos (fst (marcar_retirada lid rid d))\<rparr>)"
proof -
  have rid: "rp_id r = rid"
    using find_Some_pred [OF c] by simp
  obtain y where y: "find (\<lambda>x. rp_id x = rid) (reservas_produtos d) = Some y"
    using find_weaken [OF c] by blast
  have sd: "status_de d rid = Some (rp_status y)"
    by (simp add: status_de_def y)
  show ?thesis
    using c l rid sd
    by (auto simp: cliente_marcar_retirada_def marcar_retirada_def status_de_alterar)
qed

theorem retirada_cliente_e_loja_witness:
  "cliente_marcar_retirada 1 1 agora_ex db_ex = (db_ex, Inl PrazoExpirado) \<and>
   snd (cliente_marcar_retirada 1 1 (agora_ex - 1) db_ex) = Inr () \<and>
   status_de (fst (cliente_marcar_retirada 1 1 (agora_ex - 1) db_ex)) 1 = Some ''RETIRADO'' \<and>
   snd (marcar_retirada 1 1 db_ex) = Inr () \<and>
   status_de (fst (marcar_retirada 1 1 db_ex)) 1 = Some ''RETIRADO''"
proof -
  let ?r = "\<lparr>rp_id = 1, rp_cliente_id = 1, rp_loja_id = 1,
             data_reserva = agora_ex - timedelta_days 4 - 1, rp_status = ''RESERVADO'',
             data_limite = Some (agora_ex - timedelta_days 2 - 1)\<rparr>"
  have c: "find (\<lambda>x. rp_id x = 1 \<and> rp_cliente_id x = 1) (reservas_produtos db_ex) = Some ?r"
    by (simp add: db_ex_def)
  have l: "find (\<lambda>x. rp_id x = 1 \<and> rp_loja_id x = 1) (reservas_produtos db_ex) = Some ?r"
    by (simp add: db_ex_def)
  show ?thesis
    using retirada_cliente_e_loja [OF c l, of agora_ex]
          retirada_cliente_e_loja [OF c l, of "agora_ex - 1"]
    by simp
qed

lemma find_map_preserva:
  "(\<And>x. P (f x) = P x) \<Longrightarrow> find P (map f xs) = map_option f (find P xs)"
  by (induction xs) auto

section \<open>Cancelling an appointment\<close>

text \<open>
  C8. Let \<open>r\<close> be the appointment the handler finds for the customer. If its status is
  CANCELADO or REJEITADA the answer is the already-terminal error; otherwise, if
  \<open>data_horario - agora\<close> is less than one hour, the answer is the too-late error; in
  both cases the database is unchanged. If the status is PENDENTE or ACEITO and at least
  one hour remains, the handler succeeds, the appointment's status is CANCELADO
  afterwards, and the first slot of the appointment's service whose \<open>horario\<close> equals the
  appointment's \<open>data_horario\<close> is available again; when there is no such slot the slots
  table is unchanged and the cancellation succeeds all the same.
\<close>

theorem cancelar_reserva_correta:
  assumes r: "find (\<lambda>x. rs_id x = rid \<and> rs_cliente_id x = cid) (reservas_servicos d) = Some r"
  shows "(rs_status r = ''CANCELADO'' \<or> rs_status r = ''REJEITADA'' \<longrightarrow>
            cancelar_reserva cid rid agora d = (d, Inl JaCanceladaOuRejeitada)) \<and>
         (rs_status r \<noteq> ''CANCELADO'' \<and> rs_status r \<noteq> ''REJEITADA'' \<and>
          data_horario r - agora < segundos 3600 \<longrightarrow>
            cancelar_reserva cid rid agora d = (d, Inl MenosDeUmaHora)) \<and>
         ((rs_status r = ''PENDENTE'' \<or> rs_status r = ''ACEITO'') \<and>
          segundos 3600 \<le> data_horario r - agora \<longrightarrow>
            snd (cancelar_reserva cid rid agora d) = Inr () \<and>
            find (\<lambda>x. rs_id x = rid \<and> rs_cliente_id x = cid)
              (reservas_servicos (fst (cancelar_reserva cid rid agora d))) =
              Some (r\<lparr>rs_status := ''CANCELADO''\<rparr>) \<and>
            (case find (\<lambda>x. sh_servico_id x = rs_servico_id r \<and> horario x = data_horario r)
                    (servicos_horarios d) of
               None \<Rightarrow>
                 servicos_horarios (fst (cancelar_reserva cid rid agora d)) = servicos_horarios d
             | Some h \<Rightarrow>
                 find (\<lambda>x. sh_servico_id x = rs_servico_id r \<and> horario x = data_horario r)
                   (servicos_horarios (fst (cancelar_reserva cid rid agora d))) =
                   Some (h\<lparr>is_disponivel := True\<rparr>) \<and>
                 servicos_horarios (fst (cancelar_reserva cid rid agora d)) =
                   map (\<lambda>x. if sh_id x = sh_id h then x\<lparr>is_disponivel := True\<rparr> else x)
                     (servicos_horarios d)))"
proof -
  have rid: "rs_id r = rid" "rs_cliente_id r = cid"
    using find_Some_pred [OF r] by simp_all
  have f1: "find (\<lambda>x. rs_id x = rid \<and> rs_cliente_id x = cid)
              (map (\<lambda>x. if rs_id x = rid then x\<lparr>rs_status := ''CANCELADO''\<rparr> else x) (reservas_servicos d)) =
            Some (r\<lparr>rs_status := ''CANCELADO''\<rparr>)"
    by (subst find_map_preserva) (simp_all add: r rid)
  have f2: "find (\<lambda>x. sh_servico_id x = s \<and> horario x = t)
              (map (\<lambda>x. if sh_id x = sh_id h then x\<lparr>is_disponivel := True\<rparr> else x) hs) =
            Some (h\<lparr>is_disponivel := True\<rparr>)"
    if "find (\<lambda>x. sh_servico_id x = s \<and> horario x = t) hs = Some h" for s t hs h
    by (subst find_map_preserva) (simp_all add: that)
  show ?thesis
    using r rid f1 f2
    by (auto simp: cancelar_reserva_def Let_def split: option.splits)
qed

theorem cancelar_reserva_correta_witness:
  "cancelar_reserva 1 3 0 db_serv = (db_serv, Inl JaCanceladaOuRejeitada) \<and>
   cancelar_reserva 1 1 (timedelta_days 20000 + segundos 36000 - segundos 1800) db_serv =
     (db_serv, Inl MenosDeUmaHora) \<and>
   snd (cancelar_reserva 1 1 (timedelta_days 20000 + segundos 36000 - segundos 7200) db_serv) = Inr () \<and>
   map is_disponivel (servicos_horarios
     (fst (cancelar_reserva 1 1 (timedelta_days 20000 + segundos 36000 - segundos 7200) db_serv))) =
     [True, True] \<and>
   snd (cancelar_reserva 1 2 0 db_serv) = Inr () \<and>
   servicos_horarios (fst (cancelar_reserva 1 2 0 db_serv)) = servicos_horarios db_serv"
proof -
  let ?r1 = "\<lparr>rs_id = 1, rs_cliente_id = 1, rs_loja_id = 1, rs_servico_id = 1,
         data_horario = timedelta_days 20000 + segundos 36000, rs_status = ''PENDENTE''\<rparr>"
  let ?r2 = "\<lparr>rs_id = 2, rs_cliente_id = 1, rs_loja_id = 1, rs_servico_id = 1,
         data_horario = timedelta_days 20001 + segundos 36000, rs_status = ''ACEITO''\<rparr>"
  let ?r3 = "\<lparr>rs_id = 3, rs_cliente_id = 1, rs_loja_id = 1, rs_servico_id = 1,
         data_horario = timedelta_days 20002 + segundos 36000, rs_status = ''REJEITADA''\<rparr>"
  have r1: "find (\<lambda>x. rs_id x = 1 \<and> rs_cliente_id x = 1) (reservas_servicos db_serv) = Some ?r1"
    by (simp add: db_serv_def)
  have r2: "find (\<lambda>x. rs_id x = 2 \<and> rs_cliente_id x = 1) (reservas_servicos db_serv) = Some ?r2"
    by (simp add: db_serv_def)
  have r3: "find (\<lambda>x. rs_id x = 3 \<and> rs_cliente_id x = 1) (reservas_servicos db_serv) = Some ?r3"
    by (simp add: db_serv_def)
  show ?thesis
    using cancelar_reserva_correta [OF r3, of 0]
          cancelar_reserva_correta [OF r1, of "timedelta_days 20000 + segundos 36000 - segundos 1800"]
          cancelar_reserva_correta [OF r1, of "timedelta_days 20000 + segundos 36000 - segundos 7200"]
          cancelar_reserva_correta [OF r2, of 0]
    by (simp add: db_serv_def timedelta_days_def segundos_def)
qed

lemma find_None_iff_set: "find P xs = None \<longleftrightarrow> (\<forall>x\<in>set xs. \<not> P x)"
  by (induction xs) auto

lemma carrinho_finalizar:
  "carrinho (fst (finalizar_carrinho cid agora d)) = carrinho d \<or>
   carrinho (fst (finalizar_carrinho cid agora d)) =
     filter (\<lambda>c. c_id c \<notin> set (map c_id (filter (\<lambda>c. c_cliente_id c = cid) (carrinho d))))
       (carrinho d)"
  by (auto simp: finalizar_carrinho_def Let_def split: sum.splits option.splits prod.splits)

lemma unico_adicionar:
  assumes "carrinho_unico d"
  shows "carrinho_unico (fst (adicionar_item_carrinho cid dados d))"
proof -
  have m: "chave_carrinho \<circ> (\<lambda>c. if c_id c = i then c\<lparr>c_quantidade := c_quantidade c + n\<rparr> else c) =
           chave_carrinho" for i n
    by (auto simp: fun_eq_iff chave_carrinho_def)
  have k: "chave_carrinho \<lparr>c_id = i, c_cliente_id = a, c_produto_id = b, c_quantidade = n\<rparr> = (a, b)"
    for i a b n
    by (simp add: chave_carrinho_def)
  have a: "(cid, pid) \<notin> set (map chave_carrinho (carrinho d))"
    if "find (\<lambda>c. c_cliente_id c = cid \<and> c_produto_id c = pid) (carrinho d) = None" for pid
    using that by (auto simp: find_None_iff_set chave_carrinho_def)
  show ?thesis
    using assms a
    by (auto simp: adicionar_item_carrinho_def carrinho_unico_def Let_def m k
             split: option.splits sum.splits)
qed

lemma unico_remover:
  assumes "carrinho_unico d"
  shows "carrinho_unico (fst (remover_item_carrinho cid arg d))"
  using assms
  by (auto simp: remover_item_carrinho_def carrinho_unico_def distinct_map_filter
           split: option.splits)

lemma unico_finalizar:
  assumes "carrinho_unico d"
  shows "carrinho_unico (fst (finalizar_carrinho cid agora d))"
  using assms carrinho_finalizar [of cid agora d]
  by (auto simp: carrinho_unico_def distinct_map_filter)

lemma unico_no_maximo_uma:
  assumes "distinct (map chave_carrinho xs)"
  shows "length (filter (\<lambda>c. c_cliente_id c = cid \<and> c_produto_id c = pid) xs) \<le> 1"
  using assms
proof (induction xs)
  case Nil
  then show ?case by simp
next
  case (Cons x xs)
  have "filter (\<lambda>c. c_cliente_id c = cid \<and> c_produto_id c = pid) xs = []"
    if "c_cliente_id x = cid" "c_produto_id x = pid"
    using that Cons.prems by (auto simp: filter_empty_conv chave_carrinho_def image_iff)
  with Cons show ?case by auto
qed

section \<open>One cart line per customer and product\<close>

text \<open>
  C10. A cart without lines has at most one line per customer and product; where that
  holds, the customer has at most one line for every product, and it still holds after
  \<open>adicionar_item_carrinho\<close>, \<open>remover_item_carrinho\<close> and \<open>finalizar_carrinho\<close>, whatever
  their arguments and answers. Adding a product that the customer's cart already has, when
  the handler succeeds, leaves the number of lines as it was and adds the requested
  quantity (1 when none is given) to that line.
\<close>

theorem carrinho_uma_linha_por_produto:
  "(carrinho d = [] \<longrightarrow> carrinho_unico d) \<and>
   (carrinho_unico d \<longrightarrow>
      length (filter (\<lambda>c. c_cliente_id c = cid \<and> c_produto_id c = pid) (carrinho d)) \<le> 1 \<and>
      carrinho_unico (fst (adicionar_item_carrinho cid dados d)) \<and>
      carrinho_unico (fst (remover_item_carrinho cid arg d)) \<and>
      carrinho_unico (fst (finalizar_carrinho cid agora d))) \<and>
   (find (\<lambda>c. c_cliente_id c = cid \<and> c_produto_id c = pid) (carrinho d) = Some item \<and>
    snd (adicionar_item_carrinho cid (Some (Some pid, q)) d) = Inr () \<longrightarrow>
      length (carrinho (fst (adicionar_item_carrinho cid (Some (Some pid, q)) d))) =
        length (carrinho d) \<and>
      find (\<lambda>c. c_cliente_id c = cid \<and> c_produto_id c = pid)
        (carrinho (fst (adicionar_item_carrinho cid (Some (Some pid, q)) d))) =
        Some (item\<lparr>c_quantidade := c_quantidade item + (case q of None \<Rightarrow> 1 | Some n \<Rightarrow> n)\<rparr>))"
proof -
  have inc: "find (\<lambda>c. c_cliente_id c = cid \<and> c_produto_id c = pid)
               (map (\<lambda>c. if c_id c = c_id item then c\<lparr>c_quantidade := c_quantidade c + n\<rparr> else c)
                  (carrinho d)) = Some (item\<lparr>c_quantidade := c_quantidade item + n\<rparr>)"
    if "find (\<lambda>c. c_cliente_id c = cid \<and> c_produto_id c = pid) (carrinho d) = Some item" for n
    by (subst find_map_preserva) (simp_all add: that)
  have p3: "length (carrinho (fst (adicionar_item_carrinho cid (Some (Some pid, q)) d))) =
        length (carrinho d) \<and>
      find (\<lambda>c. c_cliente_id c = cid \<and> c_produto_id c = pid)
        (carrinho (fst (adicionar_item_carrinho cid (Some (Some pid, q)) d))) =
        Some (item\<lparr>c_quantidade := c_quantidade item + (case q of None \<Rightarrow> 1 | Some n \<Rightarrow> n)\<rparr>)"
    if f: "find (\<lambda>c. c_cliente_id c = cid \<and> c_produto_id c = pid) (carrinho d) = Some item"
    and s: "snd (adicionar_item_carrinho cid (Some (Some pid, q)) d) = Inr ()"
    using s f inc
    by (auto simp: adicionar_item_carrinho_def Let_def split: option.splits sum.splits if_splits)
  have p1: "carrinho d = [] \<longrightarrow> carrinho_unico d"
    by (simp add: carrinho_unico_def)
  have p2: "length (filter (\<lambda>c. c_cliente_id c = cid \<and> c_produto_id c = pid) (carrinho d)) \<le> 1"
    if "carrinho_unico d"
    using that unico_no_maximo_uma [of "carrinho d" cid pid] by (simp add: carrinho_unico_def)
  show ?thesis
    using p1 p2 p3 unico_adicionar [of d cid dados] unico_remover [of d cid arg]
      unico_finalizar [of d cid agora]
    by blast
qed

theorem carrinho_uma_linha_por_produto_witness:
  "carrinho_unico db_ex \<and>
   carrinho_unico (fst (adicionar_item_carrinho 1 (Some (Some 1, Some 4)) db_ex)) \<and>
   carrinho_unico (fst (remover_item_carrinho 1 (Some 1) db_ex)) \<and>
   carrinho_unico (fst (finalizar_carrinho 1 agora_ex db_ex)) \<and>
   map c_quantidade (carrinho (fst (adicionar_item_carrinho 1 (Some (Some 1, Some 4)) db_ex))) =
     [7, 1, 2]"
proof -
  have u: "carrinho_unico db_ex"
    by (simp add: carrinho_unico_def db_ex_def chave_carrinho_def)
  have f: "find (\<lambda>c. c_cliente_id c = 1 \<and> c_produto_id c = 1) (carrinho db_ex) =
             Some \<lparr>c_id = 1, c_cliente_id = 1, c_produto_id = 1, c_quantidade = 3\<rparr>"
    by (simp add: db_ex_def)
  have s: "snd (adicionar_item_carrinho 1 (Some (Some 1, Some 4)) db_ex) = Inr ()"
    by (simp add: adicionar_item_carrinho_def verificar_loja_carrinho_def db_ex_def)
  have q: "map c_quantidade (carrinho (fst (adicionar_item_carrinho 1 (Some (Some 1, Some 4)) db_ex))) =
     [7, 1, 2]"
    by (simp add: adicionar_item_carrinho_def verificar_loja_carrinho_def db_ex_def)
  show ?thesis
    using carrinho_uma_linha_por_produto [of db_ex 1 1 "Some (Some 1, Some 4)" "Some 1" agora_ex
             "\<lparr>c_id = 1, c_cliente_id = 1, c_produto_id = 1, c_quantidade = 3\<rparr>" "Some 4"] u f s q
    by simp
qed

lemma agendar_servico_intervalo:
  assumes "horario_id \<noteq> 0" and "cid \<in> set (clientes d)"
      and "find (\<lambda>s. s_id s = sid) (servicos d) = Some s"
      and "find (\<lambda>x. sh_id x = horario_id \<and> sh_servico_id x = sid \<and> is_disponivel x)
             (servicos_horarios d) = Some h"
  shows "agendar_servico cid sid (Some (Some horario_id)) d =
           (if \<exists>r\<in>set (reservas_servicos d). rs_cliente_id r = cid \<and>
                 inicio_do_dia (date (horario h)) \<le> data_horario r \<and>
                 data_horario r \<le> fim_do_dia (date (horario h))
            then (d, Inl AgendamentoMesmoDia)
            else (d\<lparr>reservas_servicos := reservas_servicos d @
                       [\<lparr>rs_id = novo_id (map rs_id (reservas_servicos d)), rs_cliente_id = cid,
                         rs_loja_id = s_loja_id s, rs_servico_id = sid, data_horario = horario h,
                         rs_status = ''PENDENTE''\<rparr>],
                    servicos_horarios :=
                      map (\<lambda>x. if sh_id x = sh_id h then x\<lparr>is_disponivel := False\<rparr> else x)
                        (servicos_horarios d)\<rparr>,
                  Inr (novo_id (map rs_id (reservas_servicos d)))))"
  using assms by (auto simp: agendar_servico_def Let_def filter_empty_conv)

section \<open>Booking on a day that already has an appointment\<close>

text \<open>
  C7, at a concrete input. The customer books slot 1, at 23:59:59.5 of day 20000; the
  appointment is created. The customer then books slot 2, at 10:00:00 of the same day:
  the handler's \<open>between\<close> ends at 23:59:59, the existing appointment is outside it, and
  the second booking succeeds too. The customer then holds two appointments on one day.
\<close>

theorem agendar_mesmo_dia_ultimo_segundo:
  "snd (agendar_servico 1 1 (Some (Some 1)) db_agenda) = Inr 1 \<and>
   map data_horario (reservas_servicos (fst (agendar_servico 1 1 (Some (Some 1)) db_agenda))) =
     [timedelta_days 20000 + segundos 86399 + 500000] \<and>
   date (timedelta_days 20000 + segundos 86399 + 500000) = date (timedelta_days 20000 + segundos 36000) \<and>
   snd (agendar_servico 1 1 (Some (Some 2)) (fst (agendar_servico 1 1 (Some (Some 1)) db_agenda))) =
     Inr 2 \<and>
   map (\<lambda>r. (date (data_horario r), rs_status r))
     (reservas_servicos
        (fst (agendar_servico 1 1 (Some (Some 2))
           (fst (agendar_servico 1 1 (Some (Some 1)) db_agenda))))) =
     [(20000, ''PENDENTE''), (20000, ''PENDENTE'')]"
  by (simp add: agendar_servico_def db_agenda_def date_def inicio_do_dia_def fim_do_dia_def
         timedelta_days_def segundos_def novo_id_def Let_def)

lemma find_existe:
  "find (\<lambda>x. sh_servico_id x = sid \<and> horario x = t) xs = None \<longleftrightarrow> \<not> existe_horario sid t xs"
  by (auto simp: find_None_iff_set existe_horario_def)

lemma existe_append [simp]:
  "existe_horario sid t (xs @ ys) \<longleftrightarrow> existe_horario sid t xs \<or> existe_horario sid t ys"
  by (auto simp: existe_horario_def)

lemma adicionar_horarios_novos:
  "\<exists>ext. adicionar_horarios af f sid hs tab novos = novos @ ext \<and>
     (\<forall>x\<in>set ext. sh_servico_id x = sid \<and> is_disponivel x \<and>
        (\<exists>h\<in>set hs. f h = Some (horario x)) \<and> \<not> existe_horario sid (horario x) tab)"
proof (induction hs arbitrary: novos)
  case Nil
  then show ?case by simp
next
  case (Cons h hs)
  show ?case
  proof (cases "f h")
    case None
    with Cons.IH [of novos] show ?thesis by auto
  next
    case (Some t)
    show ?thesis
    proof (cases "find (\<lambda>x. sh_servico_id x = sid \<and> horario x = t)
                    (if af then tab @ novos else tab)")
      case (Some e)
      with \<open>f h = Some t\<close> Cons.IH [of novos] show ?thesis by auto
    next
      case None
      let ?n = "\<lparr>sh_id = novo_id (map sh_id (tab @ novos)), sh_servico_id = sid,
                 horario = t, is_disponivel = True\<rparr>"
      have nt: "\<not> existe_horario sid t tab"
        using None by (auto simp: find_existe split: if_splits)
      obtain ext where e: "adicionar_horarios af f sid hs tab (novos @ [?n]) = (novos @ [?n]) @ ext"
        and p: "\<forall>x\<in>set ext. sh_servico_id x = sid \<and> is_disponivel x \<and>
                  (\<exists>h\<in>set hs. f h = Some (horario x)) \<and> \<not> existe_horario sid (horario x) tab"
        using Cons.IH [of "novos @ [?n]"] by blast
      have "adicionar_horarios af f sid (h # hs) tab novos = novos @ (?n # ext)"
        using None \<open>f h = Some t\<close> e by simp
      moreover have "\<forall>x\<in>set (?n # ext). sh_servico_id x = sid \<and> is_disponivel x \<and>
                  (\<exists>h'\<in>set (h # hs). f h' = Some (horario x)) \<and>
                  \<not> existe_horario sid (horario x) tab"
        using p nt \<open>f h = Some t\<close> by auto
      ultimately show ?thesis by blast
    qed
  qed
qed

lemma adicionar_horarios_cobre:
  assumes "h \<in> set hs" and "f h = Some t"
  shows "existe_horario sid t (tab @ adicionar_horarios af f sid hs tab novos)"
  using assms
proof (induction hs arbitrary: novos)
  case Nil
  then show ?case by simp
next
  case (Cons a hs)
  have ext: "\<exists>ext. adicionar_horarios af f sid hs tab n = n @ ext" for n
    using adicionar_horarios_novos [of af f sid hs tab n] by blast
  show ?case
  proof (cases "a = h")
    case False
    obtain n' where "adicionar_horarios af f sid (a # hs) tab novos =
                     adicionar_horarios af f sid hs tab n'"
      by (cases "f a"; cases "find (\<lambda>x. sh_servico_id x = sid \<and> horario x = the (f a))
                    (if af then tab @ novos else tab)") auto
    moreover have "existe_horario sid t (tab @ adicionar_horarios af f sid hs tab n')"
      using Cons.IH [of n'] Cons.prems False by simp
    ultimately show ?thesis by simp
  next
    case True
    show ?thesis
    proof (cases "find (\<lambda>x. sh_servico_id x = sid \<and> horario x = t)
                    (if af then tab @ novos else tab)")
      case None
      let ?n = "\<lparr>sh_id = novo_id (map sh_id (tab @ novos)), sh_servico_id = sid,
                 horario = t, is_disponivel = True\<rparr>"
      obtain e where "adicionar_horarios af f sid hs tab (novos @ [?n]) = (novos @ [?n]) @ e"
        using ext by blast
      then show ?thesis
        using None True Cons.prems by (simp add: existe_horario_def)
    next
      case (Some y)
      then have "existe_horario sid t (tab @ novos)"
        using find_existe [of sid t "tab @ novos"] find_existe [of sid t tab]
        by (auto split: if_splits)
      moreover obtain e where "adicionar_horarios af f sid hs tab novos = novos @ e"
        using ext by blast
      ultimately show ?thesis
        using Some True Cons.prems by auto
    qed
  qed
qed

lemma adicionar_horarios_nada:
  assumes "\<forall>h\<in>set hs. \<forall>t. f h = Some t \<longrightarrow> existe_horario sid t tab"
  shows "adicionar_horarios af f sid hs tab novos = novos"
  using assms
proof (induction hs arbitrary: novos)
  case Nil
  then show ?case by simp
next
  case (Cons a hs)
  show ?case
  proof (cases "f a")
    case None
    with Cons show ?thesis by simp
  next
    case (Some t)
    then have "existe_horario sid t tab"
      using Cons.prems by simp
    then have "find (\<lambda>x. sh_servico_id x = sid \<and> horario x = t)
                 (if af then tab @ novos else tab) \<noteq> None"
      using find_existe [of sid t "tab @ novos"] find_existe [of sid t tab] by auto
    with Some Cons show ?thesis by auto
  qed
qed

lemma adicionar_horarios_distintos:
  assumes "distinct (map horario novos)" and "\<forall>x\<in>set novos. sh_servico_id x = sid"
  shows "distinct (map horario (adicionar_horarios True f sid hs tab novos))"
  using assms
proof (induction hs arbitrary: novos)
  case Nil
  then show ?case by simp
next
  case (Cons a hs)
  show ?case
  proof (cases "f a")
    case None
    with Cons show ?thesis by simp
  next
    case (Some t)
    show ?thesis
    proof (cases "find (\<lambda>x. sh_servico_id x = sid \<and> horario x = t) (tab @ novos)")
      case (Some y)
      with \<open>f a = Some t\<close> Cons show ?thesis by simp
    next
      case None
      then have "t \<notin> horario ` set novos"
        using Cons.prems(2) by (auto simp: find_None_iff_set)
      with None \<open>f a = Some t\<close> Cons.prems show ?thesis
        by (auto intro!: Cons.IH)
    qed
  qed
qed

section \<open>Creating slots\<close>

text \<open>
  C9. For a service of the store and a list of strings, \<open>criar_horarios_servico\<close> answers
  with success, whichever strings parse and whether or not the session autoflushes. The
  slots that were in the table stay as they were, in front of the new ones. Every new slot
  is a slot of the service, is available, has the timestamp of an entry that parses, and
  no slot of the service had that timestamp before the call; with autoflush, no two new
  slots share a timestamp. After the call every entry that parses has a slot of the service
  at its timestamp. A second call with the same list succeeds and leaves the database as
  the first call left it.
\<close>

theorem criar_horarios_servico_correta:
  assumes s: "find (\<lambda>x. s_id x = sid \<and> s_loja_id x = lid) (servicos d) = Some s"
  shows "snd (criar_horarios_servico af f lid sid (Some hs) d) = Inr () \<and>
         (\<exists>novos.
            fst (criar_horarios_servico af f lid sid (Some hs) d) =
              d\<lparr>servicos_horarios := servicos_horarios d @ novos\<rparr> \<and>
            (\<forall>x\<in>set novos. sh_servico_id x = sid \<and> is_disponivel x \<and>
               (\<exists>h\<in>set hs. f h = Some (horario x)) \<and>
               \<not> existe_horario sid (horario x) (servicos_horarios d)) \<and>
            (af \<longrightarrow> distinct (map horario novos))) \<and>
         (\<forall>h\<in>set hs. \<forall>t. f h = Some t \<longrightarrow>
            existe_horario sid t
              (servicos_horarios (fst (criar_horarios_servico af f lid sid (Some hs) d)))) \<and>
         criar_horarios_servico af f lid sid (Some hs)
            (fst (criar_horarios_servico af f lid sid (Some hs) d)) =
           (fst (criar_horarios_servico af f lid sid (Some hs) d), Inr ())"
proof -
  let ?novos = "adicionar_horarios af f sid hs (servicos_horarios d) []"
  let ?d' = "d\<lparr>servicos_horarios := servicos_horarios d @ ?novos\<rparr>"
  have r: "criar_horarios_servico af f lid sid (Some hs) d = (?d', Inr ())"
    by (simp add: criar_horarios_servico_def s)
  have n: "\<forall>x\<in>set ?novos. sh_servico_id x = sid \<and> is_disponivel x \<and>
             (\<exists>h\<in>set hs. f h = Some (horario x)) \<and>
             \<not> existe_horario sid (horario x) (servicos_horarios d)"
    using adicionar_horarios_novos [of af f sid hs "servicos_horarios d" "[]"] by auto
  have di: "af \<longrightarrow> distinct (map horario ?novos)"
    using adicionar_horarios_distintos [of "[]" sid f hs "servicos_horarios d"] by auto
  have c: "\<forall>h\<in>set hs. \<forall>t. f h = Some t \<longrightarrow> existe_horario sid t (servicos_horarios ?d')"
    using adicionar_horarios_cobre [of _ hs f _ sid "servicos_horarios d" af "[]"] by simp
  have "adicionar_horarios af f sid hs (servicos_horarios ?d') [] = []"
    by (rule adicionar_horarios_nada) (use c in blast)
  then have i: "criar_horarios_servico af f lid sid (Some hs) ?d' = (?d', Inr ())"
    by (simp add: criar_horarios_servico_def s)
  have e: "\<exists>novos. ?d' = d\<lparr>servicos_horarios := servicos_horarios d @ novos\<rparr> \<and>
            (\<forall>x\<in>set novos. sh_servico_id x = sid \<and> is_disponivel x \<and>
               (\<exists>h\<in>set hs. f h = Some (horario x)) \<and>
               \<not> existe_horario sid (horario x) (servicos_horarios d)) \<and>
            (af \<longrightarrow> distinct (map horario novos))"
    using n di by blast
  show ?thesis
    unfolding r fst_conv snd_conv using e c i by blast
qed

theorem criar_horarios_servico_correta_witness:
  "snd (criar_horarios_servico False fromiso_ex 1 1
          (Some [''2024-10-04T10:00:00'', ''amanha'', ''2024-10-05T10:00:00'', ''2024-10-05T10:00:00''])
          db_serv) = Inr () \<and>
   existe_horario 1 (timedelta_days 20001 + segundos 36000)
     (servicos_horarios (fst (criar_horarios_servico False fromiso_ex 1 1
          (Some [''2024-10-04T10:00:00'', ''amanha'', ''2024-10-05T10:00:00'', ''2024-10-05T10:00:00''])
          db_serv))) \<and>
   length (servicos_horarios (fst (criar_horarios_servico False fromiso_ex 1 1
          (Some [''2024-10-04T10:00:00'', ''amanha'', ''2024-10-05T10:00:00'', ''2024-10-05T10:00:00''])
          db_serv))) = 4 \<and>
   length (servicos_horarios (fst (criar_horarios_servico True fromiso_ex 1 1
          (Some [''2024-10-04T10:00:00'', ''amanha'', ''2024-10-05T10:00:00'', ''2024-10-05T10:00:00''])
          db_serv))) = 3 \<and>
   criar_horarios_servico True fromiso_ex 1 1
     (Some [''2024-10-04T10:00:00'', ''amanha'', ''2024-10-05T10:00:00'', ''2024-10-05T10:00:00''])
     (fst (criar_horarios_servico True fromiso_ex 1 1
          (Some [''2024-10-04T10:00:00'', ''amanha'', ''2024-10-05T10:00:00'', ''2024-10-05T10:00:00''])
          db_serv)) =
   (fst (criar_horarios_servico True fromiso_ex 1 1
          (Some [''2024-10-04T10:00:00'', ''amanha'', ''2024-10-05T10:00:00'', ''2024-10-05T10:00:00''])
          db_serv), Inr ())"
proof -
  let ?hs = "[''2024-10-04T10:00:00'', ''amanha'', ''2024-10-05T10:00:00'', ''2024-10-05T10:00:00'']"
  have s: "find (\<lambda>x. s_id x = 1 \<and> s_loja_id x = 1) (servicos db_serv) =
             Some \<lparr>s_id = 1, nome_servico = ''revisao'', s_loja_id = 1\<rparr>"
    by (simp add: db_serv_def)
  have p: "fromiso_ex ''2024-10-05T10:00:00'' = Some (timedelta_days 20001 + segundos 36000)"
    by (simp add: fromiso_ex_def)
  have l4: "length (servicos_horarios (fst (criar_horarios_servico False fromiso_ex 1 1 (Some ?hs)
              db_serv))) = 4"
    by (simp add: criar_horarios_servico_def db_serv_def fromiso_ex_def timedelta_days_def
          segundos_def)
  have l3: "length (servicos_horarios (fst (criar_horarios_servico True fromiso_ex 1 1 (Some ?hs)
              db_serv))) = 3"
    by (simp add: criar_horarios_servico_def db_serv_def fromiso_ex_def timedelta_days_def
          segundos_def)
  show ?thesis
    using criar_horarios_servico_correta [OF s, of False fromiso_ex ?hs]
          criar_horarios_servico_correta [OF s, of True fromiso_ex ?hs] p l3 l4
    by (simp del: fst_conv snd_conv)
qed

lemma find_alterar_estoque:
  assumes "alterar_estoque pid delta ps = Inr ps'"
  shows "find (\<lambda>p. p_id p = x) ps' =
           map_option (\<lambda>p. if x = pid then p\<lparr>quantidade_estoque := quantidade_estoque p + delta\<rparr> else p)
             (find (\<lambda>p. p_id p = x) ps)"
proof -
  obtain p where p: "find (\<lambda>p. p_id p = pid) ps = Some p"
    using assms by (auto simp: alterar_estoque_def split: option.splits)
  then have "p_id p = pid"
    using find_Some_pred [OF p] by simp
  then have ps': "ps' = map (\<lambda>q. if p_id q = pid
                       then q\<lparr>quantidade_estoque := quantidade_estoque q + delta\<rparr> else q) ps"
    using assms p by (simp add: alterar_estoque_def)
  have "find (\<lambda>p. p_id p = x) ps' =
          map_option (\<lambda>q. if p_id q = pid
                       then q\<lparr>quantidade_estoque := quantidade_estoque q + delta\<rparr> else q)
            (find (\<lambda>p. p_id p = x) ps)"
    unfolding ps' by (rule find_map_preserva) simp
  also have "\<dots> = map_option (\<lambda>p. if x = pid then p\<lparr>quantidade_estoque := quantidade_estoque p + delta\<rparr> else p)
             (find (\<lambda>p. p_id p = x) ps)"
    by (cases "find (\<lambda>p. p_id p = x) ps") (auto dest: find_Some_pred)
  finally show ?thesis .
qed

lemma alterar_estoque_existe:
  "find (\<lambda>p. p_id p = pid) ps \<noteq> None \<Longrightarrow> \<exists>ps'. alterar_estoque pid delta ps = Inr ps'"
  by (auto simp: alterar_estoque_def)

lemma alterar_estoque_ids:
  "alterar_estoque pid delta ps = Inr ps' \<Longrightarrow> map p_id ps' = map p_id ps"
  by (auto simp: alterar_estoque_def split: option.splits)

lemma abater_estoque_ok:
  assumes "\<forall>i\<in>set itens. find (\<lambda>p. p_id p = c_produto_id i) ps \<noteq> None"
  shows "snd (abater_estoque itens ps) = None \<and>
         (\<forall>x. find (\<lambda>p. p_id p = x) (fst (abater_estoque itens ps)) =
               map_option (\<lambda>p. p\<lparr>quantidade_estoque :=
                                   quantidade_estoque p - quantidade_pedida itens x\<rparr>)
                 (find (\<lambda>p. p_id p = x) ps))"
  using assms
proof (induction itens arbitrary: ps)
  case Nil
  have "map_option (\<lambda>p. p\<lparr>quantidade_estoque := quantidade_estoque p\<rparr>) v = v"
    for v :: "produto option"
    by (cases v) simp_all
  then show ?case by (simp add: quantidade_pedida_def)
next
  case (Cons i itens)
  obtain ps' where a: "alterar_estoque (c_produto_id i) (- c_quantidade i) ps = Inr ps'"
    using alterar_estoque_existe [of "c_produto_id i" ps] Cons.prems by auto
  have f: "find (\<lambda>p. p_id p = x) ps' =
           map_option (\<lambda>p. if x = c_produto_id i
               then p\<lparr>quantidade_estoque := quantidade_estoque p + - c_quantidade i\<rparr> else p)
             (find (\<lambda>p. p_id p = x) ps)" for x
    by (rule find_alterar_estoque [OF a])
  have "\<forall>j\<in>set itens. find (\<lambda>p. p_id p = c_produto_id j) ps' \<noteq> None"
    using Cons.prems by (simp add: f)
  from Cons.IH [OF this]
  have ih: "snd (abater_estoque itens ps') = None"
    "\<And>x. find (\<lambda>p. p_id p = x) (fst (abater_estoque itens ps')) =
           map_option (\<lambda>p. p\<lparr>quantidade_estoque := quantidade_estoque p - quantidade_pedida itens x\<rparr>)
             (find (\<lambda>p. p_id p = x) ps')"
    by auto
  have "find (\<lambda>p. p_id p = x) (fst (abater_estoque (i # itens) ps)) =
        map_option (\<lambda>p. p\<lparr>quantidade_estoque :=
                            quantidade_estoque p - quantidade_pedida (i # itens) x\<rparr>)
          (find (\<lambda>p. p_id p = x) ps)" for x
    by (cases "find (\<lambda>p. p_id p = x) ps")
       (simp_all add: a ih f quantidade_pedida_def)
  then show ?case
    by (simp add: a ih)
qed

lemma validar_carrinho_Inr:
  assumes "validar_carrinho itens ps lo = Inr l'"
  shows "(itens = [] \<longrightarrow> l' = lo) \<and> (itens \<noteq> [] \<longrightarrow> l' \<noteq> None) \<and> (lo \<noteq> None \<longrightarrow> l' = lo) \<and>
         (\<forall>i\<in>set itens. \<exists>p. find (\<lambda>x. p_id x = c_produto_id i) ps = Some p \<and>
            l' = Some (p_loja_id p) \<and> c_quantidade i \<le> quantidade_estoque p)"
  using assms
proof (induction itens arbitrary: lo)
  case Nil
  then show ?case by simp
next
  case (Cons i itens)
  from Cons.prems obtain p where p: "find (\<lambda>x. p_id x = c_produto_id i) ps = Some p"
    by (auto split: option.splits)
  from Cons.prems p have lo: "lo = None \<or> lo = Some (p_loja_id p)"
    and q: "c_quantidade i \<le> quantidade_estoque p"
    and v: "validar_carrinho itens ps (Some (p_loja_id p)) = Inr l'"
    by (auto split: if_splits)
  from Cons.IH [OF v] have l': "l' = Some (p_loja_id p)"
    and r: "\<forall>j\<in>set itens. \<exists>p. find (\<lambda>x. p_id x = c_produto_id j) ps = Some p \<and>
            l' = Some (p_loja_id p) \<and> c_quantidade j \<le> quantidade_estoque p"
    by auto
  show ?case
    using p lo q l' r by auto
qed

lemma validar_carrinho_sucesso:
  assumes "\<forall>i\<in>set itens. \<exists>p. find (\<lambda>x. p_id x = c_produto_id i) ps = Some p \<and>
             p_loja_id p = l \<and> c_quantidade i \<le> quantidade_estoque p"
      and "lo = None \<or> lo = Some l"
  shows "validar_carrinho itens ps lo = Inr (if itens = [] then lo else Some l)"
  using assms
proof (induction itens arbitrary: lo)
  case Nil
  then show ?case by simp
next
  case (Cons i itens)
  then obtain p where p: "find (\<lambda>x. p_id x = c_produto_id i) ps = Some p"
    "p_loja_id p = l" "c_quantidade i \<le> quantidade_estoque p"
    by auto
  have "validar_carrinho itens ps (Some l) = Inr (Some l)"
    using Cons.IH [of "Some l"] Cons.prems(1) by simp
  then show ?case
    using p Cons.prems(2) by auto
qed

lemma validar_carrinho_lojas:
  assumes "validar_carrinho itens ps lo = Inl LojasDiferentes"
  shows "\<exists>i\<in>set itens. \<exists>p. find (\<lambda>x. p_id x = c_produto_id i) ps = Some p \<and>
           ((lo \<noteq> None \<and> lo \<noteq> Some (p_loja_id p)) \<or>
            (\<exists>j\<in>set itens. \<exists>q. find (\<lambda>x. p_id x = c_produto_id j) ps = Some q \<and>
               p_loja_id q \<noteq> p_loja_id p))"
  using assms
proof (induction itens arbitrary: lo)
  case Nil
  then show ?case by simp
next
  case (Cons i itens)
  from Cons.prems obtain p where p: "find (\<lambda>x. p_id x = c_produto_id i) ps = Some p"
    by (auto split: option.splits)
  show ?case
  proof (cases "lo \<noteq> None \<and> lo \<noteq> Some (p_loja_id p)")
    case True
    with p show ?thesis by auto
  next
    case False
    with Cons.prems p have "validar_carrinho itens ps (Some (p_loja_id p)) = Inl LojasDiferentes"
      by (auto split: if_splits)
    from Cons.IH [OF this] obtain j q where
      j: "j \<in> set itens" "find (\<lambda>x. p_id x = c_produto_id j) ps = Some q" and
      d: "p_loja_id p \<noteq> p_loja_id q \<or>
          (\<exists>k\<in>set itens. \<exists>r. find (\<lambda>x. p_id x = c_produto_id k) ps = Some r \<and>
             p_loja_id r \<noteq> p_loja_id q)"
      by auto
    from d show ?thesis
    proof
      assume "p_loja_id p \<noteq> p_loja_id q"
      with j p show ?thesis
        by (intro bexI [of _ j] exI [of _ q]) auto
    next
      assume "\<exists>k\<in>set itens. \<exists>r. find (\<lambda>x. p_id x = c_produto_id k) ps = Some r \<and>
             p_loja_id r \<noteq> p_loja_id q"
      with j show ?thesis
        by (intro bexI [of _ j] exI [of _ q]) auto
    qed
  qed
qed

lemma validar_carrinho_estoque:
  assumes "validar_carrinho itens ps lo = Inl (EstoqueInsuficiente n)"
  shows "falta_estoque itens ps n"
  using assms
proof (induction itens arbitrary: lo)
  case Nil
  then show ?case by simp
next
  case (Cons i itens)
  from Cons.prems obtain p where p: "find (\<lambda>x. p_id x = c_produto_id i) ps = Some p"
    by (auto split: option.splits)
  show ?case
  proof (cases "quantidade_estoque p < c_quantidade i")
    case True
    with Cons.prems p have "nome_produto p = n"
      by (auto split: if_splits)
    with True p show ?thesis
      by (auto simp: falta_estoque_def)
  next
    case False
    with Cons.prems p have "validar_carrinho itens ps (Some (p_loja_id p)) = Inl (EstoqueInsuficiente n)"
      by (auto split: if_splits)
    from Cons.IH [OF this] show ?thesis
      by (auto simp: falta_estoque_def)
  qed
qed

lemma validar_carrinho_erros:
  "validar_carrinho itens ps lo = Inl e \<Longrightarrow>
     e = ProdutoNoCarrinhoNaoExiste \<or> e = LojasDiferentes \<or> (\<exists>n. e = EstoqueInsuficiente n)"
  by (induction itens arbitrary: lo) (auto split: option.splits if_splits)

lemma criar_itens_ok:
  assumes "\<forall>i\<in>set itens. find (\<lambda>p. p_id p = c_produto_id i) ps \<noteq> None"
  shows "\<exists>novos. criar_itens rid itens ps tab = Inr (tab @ novos) \<and>
           list_all2 (\<lambda>x i. reserva_id x = rid \<and> ir_produto_id x = c_produto_id i \<and>
                        ir_quantidade x = c_quantidade i \<and>
                        map_option preco (find (\<lambda>p. p_id p = c_produto_id i) ps) =
                          Some (preco_unitario x)) novos itens"
  using assms
proof (induction itens arbitrary: tab)
  case Nil
  then show ?case by simp
next
  case (Cons i itens)
  then obtain p where p: "find (\<lambda>p. p_id p = c_produto_id i) ps = Some p"
    by auto
  then have pid: "p_id p = c_produto_id i"
    using find_Some_pred [OF p] by simp
  let ?n = "\<lparr>ir_id = novo_id (map ir_id tab), reserva_id = rid, ir_produto_id = p_id p,
             ir_quantidade = c_quantidade i, preco_unitario = preco p\<rparr>"
  obtain novos where n: "criar_itens rid itens ps (tab @ [?n]) = Inr ((tab @ [?n]) @ novos)"
    and l: "list_all2 (\<lambda>x i. reserva_id x = rid \<and> ir_produto_id x = c_produto_id i \<and>
                        ir_quantidade x = c_quantidade i \<and>
                        map_option preco (find (\<lambda>p. p_id p = c_produto_id i) ps) =
                          Some (preco_unitario x)) novos itens"
    using Cons.IH [of "tab @ [?n]"] Cons.prems by auto
  have "criar_itens rid (i # itens) ps tab = Inr (tab @ (?n # novos))"
    using p n by simp
  moreover have "list_all2 (\<lambda>x i. reserva_id x = rid \<and> ir_produto_id x = c_produto_id i \<and>
                        ir_quantidade x = c_quantidade i \<and>
                        map_option preco (find (\<lambda>p. p_id p = c_produto_id i) ps) =
                          Some (preco_unitario x)) (?n # novos) (i # itens)"
    using l p pid by simp
  ultimately show ?case by blast
qed

lemma finalizar_carrinho_validado:
  assumes v: "validar_carrinho (filter (\<lambda>c. c_cliente_id c = cid) (carrinho d)) (produtos d) None = Inr lo"
      and ne: "filter (\<lambda>c. c_cliente_id c = cid) (carrinho d) \<noteq> []"
  shows "\<exists>l novos.
           lo = Some l \<and>
           list_all2 (\<lambda>x i. reserva_id x = novo_id (map rp_id (reservas_produtos d)) \<and>
                        ir_produto_id x = c_produto_id i \<and> ir_quantidade x = c_quantidade i \<and>
                        map_option preco (find (\<lambda>p. p_id p = c_produto_id i) (produtos d)) =
                          Some (preco_unitario x))
             novos (filter (\<lambda>c. c_cliente_id c = cid) (carrinho d)) \<and>
           finalizar_carrinho cid agora d =
             (d\<lparr>produtos := fst (abater_estoque (filter (\<lambda>c. c_cliente_id c = cid) (carrinho d))
                                   (produtos d)),
                reservas_produtos := reservas_produtos d @
                  [\<lparr>rp_id = novo_id (map rp_id (reservas_produtos d)), rp_cliente_id = cid,
                    rp_loja_id = l, data_reserva = agora, rp_status = ''RESERVADO'',
                    data_limite = Some (agora + timedelta_days 2)\<rparr>],
                itens_reserva := itens_reserva d @ novos,
                carrinho := filter (\<lambda>c. c_id c \<notin> set (map c_id
                               (filter (\<lambda>c. c_cliente_id c = cid) (carrinho d)))) (carrinho d)\<rparr>,
              Inr (novo_id (map rp_id (reservas_produtos d)), Some (agora + timedelta_days 2)))"
proof -
  let ?itens = "filter (\<lambda>c. c_cliente_id c = cid) (carrinho d)"
  let ?rid = "novo_id (map rp_id (reservas_produtos d))"
  from validar_carrinho_Inr [OF v] ne obtain l where l: "lo = Some l"
    by auto
  have ex: "\<forall>i\<in>set ?itens. find (\<lambda>p. p_id p = c_produto_id i) (produtos d) \<noteq> None"
    using validar_carrinho_Inr [OF v] by fastforce
  obtain ps' where ab: "abater_estoque ?itens (produtos d) = (ps', None)"
    using abater_estoque_ok [OF ex] by (cases "abater_estoque ?itens (produtos d)") auto
  have f: "find (\<lambda>p. p_id p = x) ps' =
             map_option (\<lambda>p. p\<lparr>quantidade_estoque := quantidade_estoque p - quantidade_pedida ?itens x\<rparr>)
               (find (\<lambda>p. p_id p = x) (produtos d))" for x
    using abater_estoque_ok [OF ex] ab by simp
  have ex': "\<forall>i\<in>set ?itens. find (\<lambda>p. p_id p = c_produto_id i) ps' \<noteq> None"
    using ex by (simp add: f)
  obtain novos where c: "criar_itens ?rid ?itens ps' (itens_reserva d) = Inr (itens_reserva d @ novos)"
    and la: "list_all2 (\<lambda>x i. reserva_id x = ?rid \<and> ir_produto_id x = c_produto_id i \<and>
                        ir_quantidade x = c_quantidade i \<and>
                        map_option preco (find (\<lambda>p. p_id p = c_produto_id i) ps') =
                          Some (preco_unitario x)) novos ?itens"
    using criar_itens_ok [OF ex', of ?rid "itens_reserva d"] by blast
  have pr: "map_option preco (find (\<lambda>p. p_id p = x) ps') =
            map_option preco (find (\<lambda>p. p_id p = x) (produtos d))" for x
    by (simp add: f option.map_comp comp_def)
  have la': "list_all2 (\<lambda>x i. reserva_id x = ?rid \<and> ir_produto_id x = c_produto_id i \<and>
                        ir_quantidade x = c_quantidade i \<and>
                        map_option preco (find (\<lambda>p. p_id p = c_produto_id i) (produtos d)) =
                          Some (preco_unitario x)) novos ?itens"
    using la by (simp add: pr)
  have "finalizar_carrinho cid agora d =
             (d\<lparr>produtos := fst (abater_estoque ?itens (produtos d)),
                reservas_produtos := reservas_produtos d @
                  [\<lparr>rp_id = ?rid, rp_cliente_id = cid,
                    rp_loja_id = l, data_reserva = agora, rp_status = ''RESERVADO'',
                    data_limite = Some (agora + timedelta_days 2)\<rparr>],
                itens_reserva := itens_reserva d @ novos,
                carrinho := filter (\<lambda>c. c_id c \<notin> set (map c_id ?itens)) (carrinho d)\<rparr>,
              Inr (?rid, Some (agora + timedelta_days 2)))"
    using ne v l ab c by (simp add: finalizar_carrinho_def Let_def)
  with l la' show ?thesis by blast
qed

lemma finalizar_carrinho_falha:
  assumes "snd (finalizar_carrinho cid agora d) = Inl e"
  shows "fst (finalizar_carrinho cid agora d) = d \<and>
         (e = CarrinhoVazio \<and> filter (\<lambda>c. c_cliente_id c = cid) (carrinho d) = [] \<or>
          filter (\<lambda>c. c_cliente_id c = cid) (carrinho d) \<noteq> [] \<and>
          validar_carrinho (filter (\<lambda>c. c_cliente_id c = cid) (carrinho d)) (produtos d) None = Inl e)"
proof (cases "filter (\<lambda>c. c_cliente_id c = cid) (carrinho d) = []")
  case True
  with assms show ?thesis
    by (simp add: finalizar_carrinho_def)
next
  case False
  show ?thesis
  proof (cases "validar_carrinho (filter (\<lambda>c. c_cliente_id c = cid) (carrinho d)) (produtos d) None")
    case (Inl e')
    with False assms show ?thesis
      by (simp add: finalizar_carrinho_def)
  next
    case (Inr lo)
    from finalizar_carrinho_validado [OF Inr False, of agora] assms show ?thesis
      by auto
  qed
qed

section \<open>Checkout that fails\<close>

text \<open>
  C2. Whenever \<open>finalizar_carrinho\<close> answers with an error, the database it leaves is the
  database it found: no stock, reservation, line item or cart line has changed. The
  mixed-stores error is given only when two lines of the cart reference products of
  different stores, and the stock error only when a line asks for more than the stock of
  its product, whose name the error carries. Conversely, a cart with two lines whose
  products are of different stores, or with a line that asks for more than the stock of
  its product, never checks out: the answer is an error.
\<close>

theorem finalizar_carrinho_tudo_ou_nada:
  "(\<forall>e. snd (finalizar_carrinho cid agora d) = Inl e \<longrightarrow> fst (finalizar_carrinho cid agora d) = d) \<and>
   (snd (finalizar_carrinho cid agora d) = Inl LojasDiferentes \<longrightarrow>
      lojas_misturadas (filter (\<lambda>c. c_cliente_id c = cid) (carrinho d)) (produtos d)) \<and>
   (\<forall>n. snd (finalizar_carrinho cid agora d) = Inl (EstoqueInsuficiente n) \<longrightarrow>
      falta_estoque (filter (\<lambda>c. c_cliente_id c = cid) (carrinho d)) (produtos d) n) \<and>
   (lojas_misturadas (filter (\<lambda>c. c_cliente_id c = cid) (carrinho d)) (produtos d) \<or>
    (\<exists>n. falta_estoque (filter (\<lambda>c. c_cliente_id c = cid) (carrinho d)) (produtos d) n) \<longrightarrow>
      (\<exists>e. finalizar_carrinho cid agora d = (d, Inl e)))"
proof -
  let ?itens = "filter (\<lambda>c. c_cliente_id c = cid) (carrinho d)"
  have a: "fst (finalizar_carrinho cid agora d) = d" if "snd (finalizar_carrinho cid agora d) = Inl e" for e
    using finalizar_carrinho_falha [OF that] by simp
  have b: "lojas_misturadas ?itens (produtos d)"
    if "snd (finalizar_carrinho cid agora d) = Inl LojasDiferentes"
  proof -
    have "validar_carrinho ?itens (produtos d) None = Inl LojasDiferentes"
      using finalizar_carrinho_falha [OF that] by simp
    from validar_carrinho_lojas [OF this] show ?thesis
      unfolding lojas_misturadas_def by fastforce
  qed
  have c: "falta_estoque ?itens (produtos d) n"
    if "snd (finalizar_carrinho cid agora d) = Inl (EstoqueInsuficiente n)" for n
  proof -
    have "validar_carrinho ?itens (produtos d) None = Inl (EstoqueInsuficiente n)"
      using finalizar_carrinho_falha [OF that] by simp
    then show ?thesis by (rule validar_carrinho_estoque)
  qed
  have d: "\<exists>e. finalizar_carrinho cid agora d = (d, Inl e)"
    if m: "lojas_misturadas ?itens (produtos d) \<or> (\<exists>n. falta_estoque ?itens (produtos d) n)"
  proof (cases "snd (finalizar_carrinho cid agora d)")
    case (Inl e)
    with a [OF Inl] show ?thesis
      by (cases "finalizar_carrinho cid agora d") auto
  next
    case (Inr r)
    have "\<exists>i. i \<in> set ?itens"
      using m unfolding lojas_misturadas_def falta_estoque_def by blast
    then have ne: "?itens \<noteq> []"
      by (cases ?itens) simp_all
    obtain lo where v: "validar_carrinho ?itens (produtos d) None = Inr lo"
      using Inr ne by (cases "validar_carrinho ?itens (produtos d) None")
        (auto simp: finalizar_carrinho_def)
    from validar_carrinho_Inr [OF v]
    have all: "\<forall>i\<in>set ?itens. \<exists>p. find (\<lambda>x. p_id x = c_produto_id i) (produtos d) = Some p \<and>
                 lo = Some (p_loja_id p) \<and> c_quantidade i \<le> quantidade_estoque p"
      by simp
    have al: "lo = Some (p_loja_id p) \<and> c_quantidade i \<le> quantidade_estoque p"
      if "i \<in> set ?itens" "find (\<lambda>x. p_id x = c_produto_id i) (produtos d) = Some p" for i p
    proof -
      from all that(1) obtain p' where
        "find (\<lambda>x. p_id x = c_produto_id i) (produtos d) = Some p'"
        "lo = Some (p_loja_id p')" "c_quantidade i \<le> quantidade_estoque p'"
        by blast
      with that(2) show ?thesis by simp
    qed
    from m have False
    proof
      assume "lojas_misturadas ?itens (produtos d)"
      then obtain i j p q where "i \<in> set ?itens" "j \<in> set ?itens"
        "find (\<lambda>x. p_id x = c_produto_id i) (produtos d) = Some p"
        "find (\<lambda>x. p_id x = c_produto_id j) (produtos d) = Some q" "p_loja_id p \<noteq> p_loja_id q"
        unfolding lojas_misturadas_def by blast
      with al [of i p] al [of j q] show False by simp
    next
      assume "\<exists>n. falta_estoque ?itens (produtos d) n"
      then obtain i p where "i \<in> set ?itens"
        "find (\<lambda>x. p_id x = c_produto_id i) (produtos d) = Some p"
        "quantidade_estoque p < c_quantidade i"
        unfolding falta_estoque_def by blast
      with al [of i p] show False by simp
    qed
    then show ?thesis ..
  qed
  show ?thesis
    using a b c d by blast
qed

theorem finalizar_carrinho_tudo_ou_nada_witness:
  "finalizar_carrinho 2 agora_ex db_misto = (db_misto, Inl LojasDiferentes) \<and>
   lojas_misturadas (filter (\<lambda>c. c_cliente_id c = 2) (carrinho db_misto)) (produtos db_misto) \<and>
   finalizar_carrinho 3 agora_ex db_misto = (db_misto, Inl (EstoqueInsuficiente ''selim'')) \<and>
   falta_estoque (filter (\<lambda>c. c_cliente_id c = 3) (carrinho db_misto)) (produtos db_misto) ''selim''"
proof -
  have m: "snd (finalizar_carrinho 2 agora_ex db_misto) = Inl LojasDiferentes"
    by (simp add: finalizar_carrinho_def db_misto_def db_ex_def)
  have e: "snd (finalizar_carrinho 3 agora_ex db_misto) = Inl (EstoqueInsuficiente ''selim'')"
    by (simp add: finalizar_carrinho_def db_misto_def db_ex_def)
  show ?thesis
    using finalizar_carrinho_tudo_ou_nada [of 2 agora_ex db_misto]
          finalizar_carrinho_tudo_ou_nada [of 3 agora_ex db_misto] m e
    by (metis prod.collapse)
qed

lemma novo_id_maior: "x \<in> set ids \<Longrightarrow> x < novo_id ids"
proof -
  assume x: "x \<in> set ids"
  have "fold max ids 0 = Max (set (0 # ids))"
    by (simp only: Max.set_eq_fold)
  moreover have "x \<le> Max (set (0 # ids))"
    using x by (intro Max_ge) auto
  ultimately show ?thesis
    by (simp add: novo_id_def)
qed

lemma novo_id_fresco: "novo_id ids \<notin> set ids"
  using novo_id_maior [of "novo_id ids" ids] by auto

lemma filter_chave_unica:
  "distinct (map f xs) \<Longrightarrow> x \<in> set xs \<Longrightarrow> filter (\<lambda>y. f y = f x) xs = [x]"
proof (induction xs)
  case Nil
  then show ?case by simp
next
  case (Cons a xs)
  show ?case
  proof (cases "a = x")
    case True
    then have "filter (\<lambda>y. f y = f x) xs = []"
      using Cons.prems by (auto simp: filter_empty_conv image_iff)
    with True show ?thesis by simp
  next
    case False
    then have "x \<in> set xs" "f a \<noteq> f x"
      using Cons.prems by (auto simp: image_iff)
    with Cons show ?thesis by simp
  qed
qed

lemma quantidade_pedida_unica:
  assumes "carrinho_unico d" and "i \<in> set (filter (\<lambda>c. c_cliente_id c = cid) (carrinho d))"
  shows "quantidade_pedida (filter (\<lambda>c. c_cliente_id c = cid) (carrinho d)) (c_produto_id i) =
           c_quantidade i"
proof -
  let ?itens = "filter (\<lambda>c. c_cliente_id c = cid) (carrinho d)"
  have "distinct (map chave_carrinho ?itens)"
    using assms(1) by (simp add: carrinho_unico_def distinct_map_filter)
  then have "filter (\<lambda>y. chave_carrinho y = chave_carrinho i) ?itens = [i]"
    using assms(2) by (rule filter_chave_unica)
  moreover have "filter (\<lambda>y. c_produto_id y = c_produto_id i) ?itens =
                 filter (\<lambda>y. chave_carrinho y = chave_carrinho i) ?itens"
    using assms(2) by (intro filter_cong) (auto simp: chave_carrinho_def)
  ultimately show ?thesis
    by (simp add: quantidade_pedida_def)
qed

section \<open>Checkout that succeeds\<close>

text \<open>
  C1. Let the customer's cart be non-empty, with every line referencing an existing product
  of the store \<open>l\<close> and asking for at most that product's stock. Then \<open>finalizar_carrinho\<close>
  succeeds and answers with the id of a new reservation and with the expiry
  \<open>agora + 2 days\<close>. The stock of every product is what it was less the quantities of the
  cart lines that reference it (that is less the line's quantity, where the cart has one
  line per product); no product is added or removed. Exactly one reservation is appended:
  it has the new id, the customer, the store \<open>l\<close>, creation time \<open>agora\<close>, status RESERVADO
  and expiry \<open>agora + 2 days\<close>. One line item per cart line is appended, in the cart's
  order, with the reservation's id, the line's product and quantity and the product's
  price. No cart line of the customer is left, and where the cart lines' ids are distinct
  the other customers' lines are all kept. No other table changes.
\<close>

theorem finalizar_carrinho_sucesso:
  assumes ne: "filter (\<lambda>c. c_cliente_id c = cid) (carrinho d) \<noteq> []"
      and ok: "\<forall>i\<in>set (filter (\<lambda>c. c_cliente_id c = cid) (carrinho d)).
                 \<exists>p. find (\<lambda>x. p_id x = c_produto_id i) (produtos d) = Some p \<and>
                     p_loja_id p = l \<and> c_quantidade i \<le> quantidade_estoque p"
  shows "\<exists>d' novos.
           finalizar_carrinho cid agora d =
             (d', Inr (novo_id (map rp_id (reservas_produtos d)), Some (agora + timedelta_days 2))) \<and>
           (\<forall>x. estoque_de (produtos d') x =
                  map_option (\<lambda>e. e - quantidade_pedida
                                (filter (\<lambda>c. c_cliente_id c = cid) (carrinho d)) x)
                    (estoque_de (produtos d) x)) \<and>
           (carrinho_unico d \<longrightarrow>
              (\<forall>i\<in>set (filter (\<lambda>c. c_cliente_id c = cid) (carrinho d)).
                 estoque_de (produtos d') (c_produto_id i) =
                   map_option (\<lambda>e. e - c_quantidade i) (estoque_de (produtos d) (c_produto_id i)))) \<and>
           map p_id (produtos d') = map p_id (produtos d) \<and>
           novo_id (map rp_id (reservas_produtos d)) \<notin> set (map rp_id (reservas_produtos d)) \<and>
           reservas_produtos d' = reservas_produtos d @
             [\<lparr>rp_id = novo_id (map rp_id (reservas_produtos d)), rp_cliente_id = cid,
               rp_loja_id = l, data_reserva = agora, rp_status = ''RESERVADO'',
               data_limite = Some (agora + timedelta_days 2)\<rparr>] \<and>
           itens_reserva d' = itens_reserva d @ novos \<and>
           list_all2 (\<lambda>x i. reserva_id x = novo_id (map rp_id (reservas_produtos d)) \<and>
                        ir_produto_id x = c_produto_id i \<and> ir_quantidade x = c_quantidade i \<and>
                        map_option preco (find (\<lambda>p. p_id p = c_produto_id i) (produtos d)) =
                          Some (preco_unitario x))
             novos (filter (\<lambda>c. c_cliente_id c = cid) (carrinho d)) \<and>
           filter (\<lambda>c. c_cliente_id c = cid) (carrinho d') = [] \<and>
           (distinct (map c_id (carrinho d)) \<longrightarrow>
              carrinho d' = filter (\<lambda>c. c_cliente_id c \<noteq> cid) (carrinho d)) \<and>
           clientes d' = clientes d \<and> lojas d' = lojas d \<and> servicos d' = servicos d \<and>
           servicos_horarios d' = servicos_horarios d \<and> reservas_servicos d' = reservas_servicos d"
proof -
  let ?itens = "filter (\<lambda>c. c_cliente_id c = cid) (carrinho d)"
  let ?rid = "novo_id (map rp_id (reservas_produtos d))"
  let ?ps' = "fst (abater_estoque ?itens (produtos d))"
  have v: "validar_carrinho ?itens (produtos d) None = Inr (Some l)"
    using validar_carrinho_sucesso [OF ok, of None] ne by simp
  obtain l' novos where l': "Some l = Some l'"
    and la: "list_all2 (\<lambda>x i. reserva_id x = ?rid \<and>
                        ir_produto_id x = c_produto_id i \<and> ir_quantidade x = c_quantidade i \<and>
                        map_option preco (find (\<lambda>p. p_id p = c_produto_id i) (produtos d)) =
                          Some (preco_unitario x)) novos ?itens"
    and r: "finalizar_carrinho cid agora d =
             (d\<lparr>produtos := ?ps',
                reservas_produtos := reservas_produtos d @
                  [\<lparr>rp_id = ?rid, rp_cliente_id = cid,
                    rp_loja_id = l', data_reserva = agora, rp_status = ''RESERVADO'',
                    data_limite = Some (agora + timedelta_days 2)\<rparr>],
                itens_reserva := itens_reserva d @ novos,
                carrinho := filter (\<lambda>c. c_id c \<notin> set (map c_id ?itens)) (carrinho d)\<rparr>,
              Inr (?rid, Some (agora + timedelta_days 2)))"
    using finalizar_carrinho_validado [OF v ne, of agora] by blast
  have ex: "\<forall>i\<in>set ?itens. find (\<lambda>p. p_id p = c_produto_id i) (produtos d) \<noteq> None"
    using ok by fastforce
  have f: "find (\<lambda>p. p_id p = x) ?ps' =
             map_option (\<lambda>p. p\<lparr>quantidade_estoque := quantidade_estoque p - quantidade_pedida ?itens x\<rparr>)
               (find (\<lambda>p. p_id p = x) (produtos d))" for x
    using abater_estoque_ok [OF ex] by simp
  have st: "estoque_de ?ps' x =
              map_option (\<lambda>e. e - quantidade_pedida ?itens x) (estoque_de (produtos d) x)" for x
    by (simp add: estoque_de_def f option.map_comp comp_def)
  have st1: "estoque_de ?ps' (c_produto_id i) =
               map_option (\<lambda>e. e - c_quantidade i) (estoque_de (produtos d) (c_produto_id i))"
    if "carrinho_unico d" "i \<in> set ?itens" for i
    using st [of "c_produto_id i"] quantidade_pedida_unica [OF that] by simp
  have ids: "map p_id ?ps' = map p_id (produtos d)"
  proof -
    have "map p_id (fst (abater_estoque is ps)) = map p_id ps" for "is" ps
    proof (induction "is" arbitrary: ps)
      case Nil
      then show ?case by simp
    next
      case (Cons i "is")
      then show ?case
        by (cases "alterar_estoque (c_produto_id i) (- c_quantidade i) ps")
           (simp_all add: alterar_estoque_ids)
    qed
    then show ?thesis .
  qed
  have c0: "filter (\<lambda>c. c_cliente_id c = cid)
              (filter (\<lambda>c. c_id c \<notin> set (map c_id ?itens)) (carrinho d)) = []"
    by (auto simp: filter_empty_conv)
  have c1: "filter (\<lambda>c. c_id c \<notin> set (map c_id ?itens)) (carrinho d) =
            filter (\<lambda>c. c_cliente_id c \<noteq> cid) (carrinho d)"
    if di: "distinct (map c_id (carrinho d))"
  proof (rule filter_cong [OF refl])
    fix c assume c: "c \<in> set (carrinho d)"
    have "c_id c \<in> set (map c_id ?itens) \<longleftrightarrow> c_cliente_id c = cid"
    proof
      assume "c_id c \<in> set (map c_id ?itens)"
      then obtain c' where c': "c' \<in> set (carrinho d)" "c_cliente_id c' = cid" "c_id c' = c_id c"
        by auto
      with di c have "c' = c"
        by (meson distinct_map inj_onD)
      with c' show "c_cliente_id c = cid" by simp
    next
      assume "c_cliente_id c = cid"
      with c show "c_id c \<in> set (map c_id ?itens)" by auto
    qed
    then show "(c_id c \<notin> set (map c_id ?itens)) = (c_cliente_id c \<noteq> cid)" by blast
  qed
  show ?thesis
    unfolding r
    apply (intro exI conjI)
    apply (rule refl)
    using l' la st st1 ids c0 c1 novo_id_fresco [of "map rp_id (reservas_produtos d)"]
    apply simp_all
    done
qed

theorem finalizar_carrinho_sucesso_witness:
  "snd (finalizar_carrinho 1 agora_ex db_ex) = Inr (4, Some (agora_ex + timedelta_days 2)) \<and>
   estoque_de (produtos (fst (finalizar_carrinho 1 agora_ex db_ex))) 1 = Some 2 \<and>
   estoque_de (produtos (fst (finalizar_carrinho 1 agora_ex db_ex))) 2 = Some 0 \<and>
   estoque_de (produtos (fst (finalizar_carrinho 1 agora_ex db_ex))) 3 = Some 4 \<and>
   length (reservas_produtos (fst (finalizar_carrinho 1 agora_ex db_ex))) = 4 \<and>
   length (itens_reserva (fst (finalizar_carrinho 1 agora_ex db_ex))) = 6 \<and>
   carrinho (fst (finalizar_carrinho 1 agora_ex db_ex)) =
     [\<lparr>c_id = 2, c_cliente_id = 2, c_produto_id = 3, c_quantidade = 1\<rparr>]"
proof -
  have ne: "filter (\<lambda>c. c_cliente_id c = 1) (carrinho db_ex) \<noteq> []"
    by (simp add: db_ex_def)
  have ok: "\<forall>i\<in>set (filter (\<lambda>c. c_cliente_id c = 1) (carrinho db_ex)).
              \<exists>p. find (\<lambda>x. p_id x = c_produto_id i) (produtos db_ex) = Some p \<and>
                  p_loja_id p = 1 \<and> c_quantidade i \<le> quantidade_estoque p"
    by (simp add: db_ex_def)
  have q: "quantidade_pedida (filter (\<lambda>c. c_cliente_id c = 1) (carrinho db_ex)) 1 = 3"
    "quantidade_pedida (filter (\<lambda>c. c_cliente_id c = 1) (carrinho db_ex)) 2 = 2"
    "quantidade_pedida (filter (\<lambda>c. c_cliente_id c = 1) (carrinho db_ex)) 3 = 0"
    by (simp_all add: quantidade_pedida_def db_ex_def)
  have e: "estoque_de (produtos db_ex) 1 = Some 5" "estoque_de (produtos db_ex) 2 = Some 2"
    "estoque_de (produtos db_ex) 3 = Some 4"
    by (simp_all add: estoque_de_def db_ex_def)
  have n: "novo_id (map rp_id (reservas_produtos db_ex)) = 4"
    by (simp add: novo_id_def db_ex_def)
  have di: "distinct (map c_id (carrinho db_ex))"
    by (simp add: db_ex_def)
  have k: "filter (\<lambda>c. c_cliente_id c \<noteq> 1) (carrinho db_ex) =
             [\<lparr>c_id = 2, c_cliente_id = 2, c_produto_id = 3, c_quantidade = 1\<rparr>]"
    by (simp add: db_ex_def)
  have lr: "length (reservas_produtos db_ex) = 3" "length (itens_reserva db_ex) = 4"
    "length (filter (\<lambda>c. c_cliente_id c = 1) (carrinho db_ex)) = 2"
    by (simp_all add: db_ex_def)
  from finalizar_carrinho_sucesso [OF ne ok, of agora_ex] obtain d' novos where
    r: "finalizar_carrinho 1 agora_ex db_ex =
          (d', Inr (novo_id (map rp_id (reservas_produtos db_ex)), Some (agora_ex + timedelta_days 2)))"
    and st: "\<And>x. estoque_de (produtos d') x =
                  map_option (\<lambda>e. e - quantidade_pedida
                                (filter (\<lambda>c. c_cliente_id c = 1) (carrinho db_ex)) x)
                    (estoque_de (produtos db_ex) x)"
    and rs: "reservas_produtos d' = reservas_produtos db_ex @
             [\<lparr>rp_id = novo_id (map rp_id (reservas_produtos db_ex)), rp_cliente_id = 1,
               rp_loja_id = 1, data_reserva = agora_ex, rp_status = ''RESERVADO'',
               data_limite = Some (agora_ex + timedelta_days 2)\<rparr>]"
    and it: "itens_reserva d' = itens_reserva db_ex @ novos"
    and la: "list_all2 (\<lambda>x i. reserva_id x = novo_id (map rp_id (reservas_produtos db_ex)) \<and>
                        ir_produto_id x = c_produto_id i \<and> ir_quantidade x = c_quantidade i \<and>
                        map_option preco (find (\<lambda>p. p_id p = c_produto_id i) (produtos db_ex)) =
                          Some (preco_unitario x))
             novos (filter (\<lambda>c. c_cliente_id c = 1) (carrinho db_ex))"
    and ca: "distinct (map c_id (carrinho db_ex)) \<longrightarrow>
              carrinho d' = filter (\<lambda>c. c_cliente_id c \<noteq> 1) (carrinho db_ex)"
    by blast
  have "length novos = 2"
    using list_all2_lengthD [OF la] lr by simp
  then show ?thesis
    using r st [of 1] st [of 2] st [of 3] rs it ca di q e n k lr by simp
qed

lemma find_id_None: "find (\<lambda>p. p_id p = x) ps = None \<longleftrightarrow> x \<notin> set (map p_id ps)"
  by (auto simp: find_None_iff_set)

lemma devolver_estoque_ok:
  assumes "\<forall>i\<in>set itens. ir_produto_id i \<in> set (map p_id ps)"
  shows "\<exists>ps'. devolver_estoque itens ps = Inr ps' \<and> map p_id ps' = map p_id ps \<and>
           (\<forall>x. find (\<lambda>p. p_id p = x) ps' =
                 map_option (\<lambda>p. p\<lparr>quantidade_estoque := quantidade_estoque p +
                     sum_list (map ir_quantidade (filter (\<lambda>i. ir_produto_id i = x) itens))\<rparr>)
                   (find (\<lambda>p. p_id p = x) ps))"
  using assms
proof (induction itens arbitrary: ps)
  case Nil
  have "map_option (\<lambda>p. p\<lparr>quantidade_estoque := quantidade_estoque p\<rparr>) v = v"
    for v :: "produto option"
    by (cases v) simp_all
  then show ?case by simp
next
  case (Cons i itens)
  have "find (\<lambda>p. p_id p = ir_produto_id i) ps \<noteq> None"
    using Cons.prems by (simp add: find_id_None)
  then obtain ps1 where a: "alterar_estoque (ir_produto_id i) (ir_quantidade i) ps = Inr ps1"
    using alterar_estoque_existe by blast
  have ids1: "map p_id ps1 = map p_id ps"
    by (rule alterar_estoque_ids [OF a])
  have f1: "find (\<lambda>p. p_id p = x) ps1 =
           map_option (\<lambda>p. if x = ir_produto_id i
               then p\<lparr>quantidade_estoque := quantidade_estoque p + ir_quantidade i\<rparr> else p)
             (find (\<lambda>p. p_id p = x) ps)" for x
    by (rule find_alterar_estoque [OF a])
  have "\<forall>j\<in>set itens. ir_produto_id j \<in> set (map p_id ps1)"
    using Cons.prems by (simp add: ids1)
  from Cons.IH [OF this] obtain ps' where
    d: "devolver_estoque itens ps1 = Inr ps'" and ids: "map p_id ps' = map p_id ps1" and
    f: "\<And>x. find (\<lambda>p. p_id p = x) ps' =
                 map_option (\<lambda>p. p\<lparr>quantidade_estoque := quantidade_estoque p +
                     sum_list (map ir_quantidade (filter (\<lambda>i. ir_produto_id i = x) itens))\<rparr>)
                   (find (\<lambda>p. p_id p = x) ps1)"
    by blast
  have "find (\<lambda>p. p_id p = x) ps' =
          map_option (\<lambda>p. p\<lparr>quantidade_estoque := quantidade_estoque p +
              sum_list (map ir_quantidade (filter (\<lambda>j. ir_produto_id j = x) (i # itens)))\<rparr>)
            (find (\<lambda>p. p_id p = x) ps)" for x
    by (cases "find (\<lambda>p. p_id p = x) ps") (simp_all add: f f1)
  then show ?case
    using a d ids ids1 by simp
qed

lemma devolver_estoque_falha:
  assumes "\<not> (\<forall>i\<in>set itens. ir_produto_id i \<in> set (map p_id ps))"
  shows "devolver_estoque itens ps = Inl AttributeError"
  using assms
proof (induction itens arbitrary: ps)
  case Nil
  then show ?case by simp
next
  case (Cons i itens)
  show ?case
  proof (cases "find (\<lambda>p. p_id p = ir_produto_id i) ps")
    case None
    then show ?thesis by (simp add: alterar_estoque_def)
  next
    case (Some p)
    then obtain ps1 where a: "alterar_estoque (ir_produto_id i) (ir_quantidade i) ps = Inr ps1"
      using alterar_estoque_existe [of "ir_produto_id i" ps] by auto
    have ids1: "map p_id ps1 = map p_id ps"
      by (rule alterar_estoque_ids [OF a])
    have "ir_produto_id i \<in> set (map p_id ps)"
      using Some find_id_None [of "ir_produto_id i" ps] by simp
    with Cons.prems have "\<not> (\<forall>j\<in>set itens. ir_produto_id j \<in> set (map p_id ps1))"
      by (simp add: ids1)
    from Cons.IH [OF this] a show ?thesis by simp
  qed
qed

lemma marcar_canceladas_alterar:
  "marcar_canceladas rids (alterar_status a ''CANCELADO'' rs) = marcar_canceladas (a # rids) rs"
  by (induction rs) (auto simp: marcar_canceladas_def alterar_status_def)

lemma marcar_canceladas_Nil [simp]: "marcar_canceladas [] rs = rs"
  by (simp add: marcar_canceladas_def)

lemma cancelar_reservas_ok:
  assumes "\<forall>r\<in>set rs. itens_ok (itens_reserva d) (map p_id (produtos d)) r"
  shows "\<exists>ps'. cancelar_reservas rs d =
                 (d\<lparr>reservas_produtos := marcar_canceladas (map rp_id rs) (reservas_produtos d),
                    produtos := ps'\<rparr>, None) \<and>
           map p_id ps' = map p_id (produtos d) \<and>
           (\<forall>x. find (\<lambda>p. p_id p = x) ps' =
                 map_option (\<lambda>p. p\<lparr>quantidade_estoque := quantidade_estoque p +
                     sum_list (map (\<lambda>r. sum_list (map ir_quantidade
                        (filter (\<lambda>i. ir_produto_id i = x)
                           (filter (\<lambda>i. reserva_id i = rp_id r) (itens_reserva d))))) rs)\<rparr>)
                   (find (\<lambda>p. p_id p = x) (produtos d)))"
  using assms
proof (induction rs arbitrary: d)
  case Nil
  have "map_option (\<lambda>p. p\<lparr>quantidade_estoque := quantidade_estoque p\<rparr>) v = v"
    for v :: "produto option"
    by (cases v) simp_all
  then have "cancelar_reservas [] d =
          (d\<lparr>reservas_produtos := marcar_canceladas (map rp_id []) (reservas_produtos d),
             produtos := produtos d\<rparr>, None) \<and>
        map p_id (produtos d) = map p_id (produtos d) \<and>
        (\<forall>x. find (\<lambda>p. p_id p = x) (produtos d) =
                 map_option (\<lambda>p. p\<lparr>quantidade_estoque := quantidade_estoque p +
                     sum_list (map (\<lambda>r. sum_list (map ir_quantidade
                        (filter (\<lambda>i. ir_produto_id i = x)
                           (filter (\<lambda>i. reserva_id i = rp_id r) (itens_reserva d))))) [])\<rparr>)
                   (find (\<lambda>p. p_id p = x) (produtos d)))"
    by simp
  then show ?case by blast
next
  case (Cons r rs)
  let ?its = "filter (\<lambda>i. reserva_id i = rp_id r) (itens_reserva d)"
  have "\<forall>i\<in>set ?its. ir_produto_id i \<in> set (map p_id (produtos d))"
    using Cons.prems by (auto simp: itens_ok_def)
  from devolver_estoque_ok [OF this] obtain ps1 where
    dv: "devolver_estoque ?its (produtos d) = Inr ps1" and
    ids1: "map p_id ps1 = map p_id (produtos d)" and
    f1: "\<And>x. find (\<lambda>p. p_id p = x) ps1 =
                 map_option (\<lambda>p. p\<lparr>quantidade_estoque := quantidade_estoque p +
                     sum_list (map ir_quantidade (filter (\<lambda>i. ir_produto_id i = x) ?its))\<rparr>)
                   (find (\<lambda>p. p_id p = x) (produtos d))"
    by blast
  let ?d1 = "d\<lparr>reservas_produtos := alterar_status (rp_id r) ''CANCELADO'' (reservas_produtos d),
               produtos := ps1\<rparr>"
  have "\<forall>r'\<in>set rs. itens_ok (itens_reserva ?d1) (map p_id (produtos ?d1)) r'"
    using Cons.prems by (simp add: ids1)
  from Cons.IH [OF this] obtain ps' where
    c: "cancelar_reservas rs ?d1 =
          (?d1\<lparr>reservas_produtos := marcar_canceladas (map rp_id rs) (reservas_produtos ?d1),
               produtos := ps'\<rparr>, None)" and
    ids: "map p_id ps' = map p_id (produtos ?d1)" and
    f: "\<And>x. find (\<lambda>p. p_id p = x) ps' =
                 map_option (\<lambda>p. p\<lparr>quantidade_estoque := quantidade_estoque p +
                     sum_list (map (\<lambda>r. sum_list (map ir_quantidade
                        (filter (\<lambda>i. ir_produto_id i = x)
                           (filter (\<lambda>i. reserva_id i = rp_id r) (itens_reserva ?d1))))) rs)\<rparr>)
                   (find (\<lambda>p. p_id p = x) (produtos ?d1))"
    by blast
  have r1: "cancelar_reservas (r # rs) d =
          (d\<lparr>reservas_produtos := marcar_canceladas (map rp_id (r # rs)) (reservas_produtos d),
             produtos := ps'\<rparr>, None)"
    using dv c by (simp add: marcar_canceladas_alterar)
  have r2: "map p_id ps' = map p_id (produtos d)"
    using ids ids1 by simp
  have r3: "find (\<lambda>p. p_id p = x) ps' =
                 map_option (\<lambda>p. p\<lparr>quantidade_estoque := quantidade_estoque p +
                     sum_list (map (\<lambda>r. sum_list (map ir_quantidade
                        (filter (\<lambda>i. ir_produto_id i = x)
                           (filter (\<lambda>i. reserva_id i = rp_id r) (itens_reserva d))))) (r # rs))\<rparr>)
                   (find (\<lambda>p. p_id p = x) (produtos d))" for x
    by (cases "find (\<lambda>p. p_id p = x) (produtos d)") (simp_all add: f f1)
  show ?case
    using r1 r2 r3 by blast
qed

lemma sum_filter_disj:
  assumes "\<And>x. x \<in> set xs \<Longrightarrow> \<not> (P x \<and> Q x)"
  shows "sum_list (map g (filter (\<lambda>x. P x \<or> Q x) xs)) =
         sum_list (map g (filter P xs)) + sum_list (map (g :: 'a \<Rightarrow> int) (filter Q xs))"
  using assms by (induction xs) auto

lemma soma_por_reserva:
  assumes "distinct (map rp_id rs)"
  shows "sum_list (map (\<lambda>r. sum_list (map ir_quantidade
            (filter (\<lambda>i. ir_produto_id i = x)
               (filter (\<lambda>i. reserva_id i = rp_id r) itens)))) rs) =
         quantidade_reservada itens (map rp_id rs) x"
  using assms
proof (induction rs)
  case Nil
  then show ?case by (simp add: quantidade_reservada_def)
next
  case (Cons r rs)
  have "quantidade_reservada itens (map rp_id (r # rs)) x =
        sum_list (map ir_quantidade
          (filter (\<lambda>i. (ir_produto_id i = x \<and> reserva_id i = rp_id r) \<or>
                        (ir_produto_id i = x \<and> reserva_id i \<in> set (map rp_id rs))) itens))"
    unfolding quantidade_reservada_def
    by (rule arg_cong [where f = "\<lambda>l. sum_list (map ir_quantidade l)"], rule filter_cong) auto
  also have "\<dots> = sum_list (map ir_quantidade
                      (filter (\<lambda>i. ir_produto_id i = x \<and> reserva_id i = rp_id r) itens)) +
                   quantidade_reservada itens (map rp_id rs) x"
    unfolding quantidade_reservada_def
    using Cons.prems by (intro sum_filter_disj) auto
  also have "filter (\<lambda>i. ir_produto_id i = x \<and> reserva_id i = rp_id r) itens =
             filter (\<lambda>i. ir_produto_id i = x) (filter (\<lambda>i. reserva_id i = rp_id r) itens)"
    by (auto simp: conj_commute)
  finally show ?case
    using Cons by simp
qed

lemma filter_marcar_canceladas:
  assumes "\<And>r. P r \<Longrightarrow> rp_status r = ''RESERVADO''"
      and "\<And>r s. rp_status r = ''RESERVADO'' \<Longrightarrow> P (r\<lparr>rp_status := s\<rparr>) = (P r \<and> s = ''RESERVADO'')"
  shows "filter P (marcar_canceladas rids xs) = filter (\<lambda>r. P r \<and> rp_id r \<notin> set rids) xs"
proof (induction xs)
  case Nil
  then show ?case by (simp add: marcar_canceladas_def)
next
  case (Cons r xs)
  have "\<not> P (r\<lparr>rp_status := ''CANCELADO''\<rparr>)"
  proof
    assume "P (r\<lparr>rp_status := ''CANCELADO''\<rparr>)"
    from assms(1) [OF this] show False by simp
  qed
  with Cons show ?case
    by (auto simp: marcar_canceladas_def)
qed

lemma id_no_filtro:
  assumes "distinct (map rp_id xs)" and "r \<in> set xs"
  shows "rp_id r \<in> set (map rp_id (filter P xs)) \<longleftrightarrow> P r"
proof
  assume "rp_id r \<in> set (map rp_id (filter P xs))"
  then obtain r' where r': "r' \<in> set xs" "P r'" "rp_id r' = rp_id r"
    by auto
  with assms have "r' = r"
    by (meson distinct_map inj_onD)
  with r' show "P r" by simp
next
  assume "P r"
  with assms(2) show "rp_id r \<in> set (map rp_id (filter P xs))" by auto
qed

lemma marcar_por_predicado:
  assumes "distinct (map rp_id xs)"
  shows "marcar_canceladas (map rp_id (filter P xs)) xs =
         map (\<lambda>r. if P r then r\<lparr>rp_status := ''CANCELADO''\<rparr> else r) xs"
  unfolding marcar_canceladas_def
proof (rule map_cong [OF refl])
  fix r assume "r \<in> set xs"
  from id_no_filtro [OF assms this, of P]
  show "(if rp_id r \<in> set (map rp_id (filter P xs)) then r\<lparr>rp_status := ''CANCELADO''\<rparr> else r) =
        (if P r then r\<lparr>rp_status := ''CANCELADO''\<rparr> else r)"
    by simp
qed

lemma expirada_2dias_guardada:
  "expirada_2dias l a r \<Longrightarrow> rp_status r = ''RESERVADO''"
  "rp_status r = ''RESERVADO'' \<Longrightarrow>
     expirada_2dias l a (r\<lparr>rp_status := s\<rparr>) = (expirada_2dias l a r \<and> s = ''RESERVADO'')"
  by (auto simp: expirada_2dias_def)

lemma expirada_4dias_guardada:
  "expirada_4dias b l a r \<Longrightarrow> rp_status r = ''RESERVADO''"
  "rp_status r = ''RESERVADO'' \<Longrightarrow>
     expirada_4dias b l a (r\<lparr>rp_status := s\<rparr>) = (expirada_4dias b l a r \<and> s = ''RESERVADO'')"
  by (auto simp: expirada_4dias_def)

lemma cancelar_expiradas_sem_falha:
  assumes dist: "distinct (map rp_id (reservas_produtos d))"
      and fk: "\<forall>r\<in>set (reservas_produtos d). expirada b l a r \<longrightarrow>
                 itens_ok (itens_reserva d) (map p_id (produtos d)) r"
  shows "\<exists>ps'. cancelar_expiradas b l a d =
           (d\<lparr>reservas_produtos :=
                 map (\<lambda>r. if expirada b l a r then r\<lparr>rp_status := ''CANCELADO''\<rparr> else r)
                   (reservas_produtos d),
              produtos := ps'\<rparr>, Inr ()) \<and>
           map p_id ps' = map p_id (produtos d) \<and>
           (\<forall>x. find (\<lambda>p. p_id p = x) ps' =
                 map_option (\<lambda>p. p\<lparr>quantidade_estoque :=
                                     quantidade_estoque p + quantidade_devolvida b l a d x\<rparr>)
                   (find (\<lambda>p. p_id p = x) (produtos d)))"
proof -
  let ?xs = "reservas_produtos d"
  let ?its = "itens_reserva d"
  let ?rs2 = "filter (expirada_2dias l a) ?xs"
  let ?rs4 = "filter (\<lambda>r. expirada_4dias b l a r \<and> \<not> expirada_2dias l a r) ?xs"
  have ok2: "\<forall>r\<in>set ?rs2. itens_ok ?its (map p_id (produtos d)) r"
    using fk by (auto simp: expirada_def)
  from cancelar_reservas_ok [OF ok2] obtain ps1 where
    c1: "cancelar_reservas ?rs2 d =
           (d\<lparr>reservas_produtos := marcar_canceladas (map rp_id ?rs2) ?xs, produtos := ps1\<rparr>, None)"
    and ids1: "map p_id ps1 = map p_id (produtos d)"
    and f1: "\<And>x. find (\<lambda>p. p_id p = x) ps1 =
                 map_option (\<lambda>p. p\<lparr>quantidade_estoque := quantidade_estoque p +
                     sum_list (map (\<lambda>r. sum_list (map ir_quantidade
                        (filter (\<lambda>i. ir_produto_id i = x)
                           (filter (\<lambda>i. reserva_id i = rp_id r) ?its)))) ?rs2)\<rparr>)
                   (find (\<lambda>p. p_id p = x) (produtos d))"
    by blast
  let ?d1 = "d\<lparr>reservas_produtos := marcar_canceladas (map rp_id ?rs2) ?xs, produtos := ps1\<rparr>"
  have m1: "marcar_canceladas (map rp_id ?rs2) ?xs =
            map (\<lambda>r. if expirada_2dias l a r then r\<lparr>rp_status := ''CANCELADO''\<rparr> else r) ?xs"
    by (rule marcar_por_predicado [OF dist])
  have "filter (expirada_4dias b l a) (marcar_canceladas (map rp_id ?rs2) ?xs) =
        filter (\<lambda>r. expirada_4dias b l a r \<and> rp_id r \<notin> set (map rp_id ?rs2)) ?xs"
    by (rule filter_marcar_canceladas) (auto simp: expirada_4dias_def)
  also have "\<dots> = ?rs4"
    by (rule filter_cong [OF refl]) (simp only: id_no_filtro [OF dist])
  finally have rs4: "filter (expirada_4dias b l a) (reservas_produtos ?d1) = ?rs4"
    by simp
  have ok4: "\<forall>r\<in>set ?rs4. itens_ok (itens_reserva ?d1) (map p_id (produtos ?d1)) r"
    using fk by (auto simp: expirada_def ids1)
  from cancelar_reservas_ok [OF ok4] obtain ps2 where
    c2: "cancelar_reservas ?rs4 ?d1 =
           (?d1\<lparr>reservas_produtos := marcar_canceladas (map rp_id ?rs4) (reservas_produtos ?d1),
                produtos := ps2\<rparr>, None)"
    and ids2: "map p_id ps2 = map p_id (produtos ?d1)"
    and f2: "\<And>x. find (\<lambda>p. p_id p = x) ps2 =
                 map_option (\<lambda>p. p\<lparr>quantidade_estoque := quantidade_estoque p +
                     sum_list (map (\<lambda>r. sum_list (map ir_quantidade
                        (filter (\<lambda>i. ir_produto_id i = x)
                           (filter (\<lambda>i. reserva_id i = rp_id r) (itens_reserva ?d1))))) ?rs4)\<rparr>)
                   (find (\<lambda>p. p_id p = x) (produtos ?d1))"
    by blast
  have m2: "marcar_canceladas (map rp_id ?rs4) (reservas_produtos ?d1) =
            map (\<lambda>r. if expirada b l a r then r\<lparr>rp_status := ''CANCELADO''\<rparr> else r) ?xs"
  proof -
    have "reservas_produtos ?d1 =
          map (\<lambda>r. if expirada_2dias l a r then r\<lparr>rp_status := ''CANCELADO''\<rparr> else r) ?xs"
      using m1 by simp
    then have "marcar_canceladas (map rp_id ?rs4) (reservas_produtos ?d1) =
          map (\<lambda>r. if rp_id r \<in> set (map rp_id ?rs4) then r\<lparr>rp_status := ''CANCELADO''\<rparr> else r)
            (map (\<lambda>r. if expirada_2dias l a r then r\<lparr>rp_status := ''CANCELADO''\<rparr> else r) ?xs)"
      by (simp only: marcar_canceladas_def)
    also have "\<dots> = map (\<lambda>r. if expirada b l a r then r\<lparr>rp_status := ''CANCELADO''\<rparr> else r) ?xs"
      unfolding map_map
    proof (rule map_cong [OF refl])
      fix r assume r: "r \<in> set ?xs"
      have "rp_id r \<in> set (map rp_id ?rs4) \<longleftrightarrow> expirada_4dias b l a r \<and> \<not> expirada_2dias l a r"
        by (rule id_no_filtro [OF dist r])
      then show "((\<lambda>r. if rp_id r \<in> set (map rp_id ?rs4) then r\<lparr>rp_status := ''CANCELADO''\<rparr> else r) \<circ>
                  (\<lambda>r. if expirada_2dias l a r then r\<lparr>rp_status := ''CANCELADO''\<rparr> else r)) r =
                 (if expirada b l a r then r\<lparr>rp_status := ''CANCELADO''\<rparr> else r)"
        by (auto simp: expirada_def)
    qed
    finally show ?thesis .
  qed
  have s2: "sum_list (map (\<lambda>r. sum_list (map ir_quantidade
                        (filter (\<lambda>i. ir_produto_id i = x)
                           (filter (\<lambda>i. reserva_id i = rp_id r) ?its)))) ?rs2) =
            quantidade_reservada ?its (map rp_id ?rs2) x" for x
    by (rule soma_por_reserva) (simp add: distinct_map_filter dist)
  have s4: "sum_list (map (\<lambda>r. sum_list (map ir_quantidade
                        (filter (\<lambda>i. ir_produto_id i = x)
                           (filter (\<lambda>i. reserva_id i = rp_id r) ?its)))) ?rs4) =
            quantidade_reservada ?its (map rp_id ?rs4) x" for x
    by (rule soma_por_reserva) (simp add: distinct_map_filter dist)
  have tot: "quantidade_reservada ?its (map rp_id ?rs2) x +
             quantidade_reservada ?its (map rp_id ?rs4) x = quantidade_devolvida b l a d x" for x
  proof -
    have dj: "set (map rp_id ?rs2) \<inter> set (map rp_id ?rs4) = {}"
    proof (rule ccontr)
      assume "set (map rp_id ?rs2) \<inter> set (map rp_id ?rs4) \<noteq> {}"
      then obtain r r' where "r \<in> set ?xs" "expirada_2dias l a r" "r' \<in> set ?xs"
        "\<not> expirada_2dias l a r'" "rp_id r = rp_id r'"
        by auto
      with dist show False
        by (metis distinct_map inj_onD)
    qed
    have un: "set (map rp_id (filter (expirada b l a) ?xs)) =
              set (map rp_id ?rs2) \<union> set (map rp_id ?rs4)"
      by (auto simp: expirada_def)
    have "quantidade_devolvida b l a d x =
          sum_list (map ir_quantidade
            (filter (\<lambda>i. (ir_produto_id i = x \<and> reserva_id i \<in> set (map rp_id ?rs2)) \<or>
                          (ir_produto_id i = x \<and> reserva_id i \<in> set (map rp_id ?rs4))) ?its))"
      unfolding quantidade_devolvida_def quantidade_reservada_def un
      by (rule arg_cong [where f = "\<lambda>l. sum_list (map ir_quantidade l)"], rule filter_cong) auto
    also have "\<dots> = quantidade_reservada ?its (map rp_id ?rs2) x +
                     quantidade_reservada ?its (map rp_id ?rs4) x"
      unfolding quantidade_reservada_def
      using dj by (intro sum_filter_disj) blast
    finally show ?thesis by simp
  qed
  have f1': "find (\<lambda>p. p_id p = x) ps1 =
                 map_option (\<lambda>p. p\<lparr>quantidade_estoque := quantidade_estoque p +
                     quantidade_reservada ?its (map rp_id ?rs2) x\<rparr>)
                   (find (\<lambda>p. p_id p = x) (produtos d))" for x
    using f1 [of x] by (simp only: s2)
  have i1: "itens_reserva ?d1 = ?its" "produtos ?d1 = ps1"
    by simp_all
  have f2': "find (\<lambda>p. p_id p = x) ps2 =
                 map_option (\<lambda>p. p\<lparr>quantidade_estoque := quantidade_estoque p +
                     quantidade_reservada ?its (map rp_id ?rs4) x\<rparr>)
                   (find (\<lambda>p. p_id p = x) ps1)" for x
    using f2 [of x] by (simp only: i1 s4)
  have r3: "find (\<lambda>p. p_id p = x) ps2 =
              map_option (\<lambda>p. p\<lparr>quantidade_estoque :=
                                  quantidade_estoque p + quantidade_devolvida b l a d x\<rparr>)
                (find (\<lambda>p. p_id p = x) (produtos d))" for x
    by (cases "find (\<lambda>p. p_id p = x) (produtos d)")
       (simp_all add: f2' f1' tot [of x, symmetric] add.assoc)
  have r1: "cancelar_expiradas b l a d =
           (d\<lparr>reservas_produtos :=
                 map (\<lambda>r. if expirada b l a r then r\<lparr>rp_status := ''CANCELADO''\<rparr> else r) ?xs,
              produtos := ps2\<rparr>, Inr ())"
    unfolding cancelar_expiradas_def c1 prod.case option.case rs4 c2 m2
    by simp
  have r2: "map p_id ps2 = map p_id (produtos d)"
    using ids2 ids1 by simp
  show ?thesis
    using r1 r2 r3 by blast
qed

section \<open>The expiry sweep\<close>

text \<open>
  What the sweep does with any database engine, where the reservations have distinct ids
  and every line item of a reservation that the sweep selects references an existing
  product. A reservation is selected when it is of the store, has status RESERVADO and
  either its \<open>data_limite\<close> is before \<open>agora\<close> or the engine gives the second query's
  expression the value true. The sweep succeeds; afterwards exactly the selected
  reservations have status CANCELADO and every other reservation is as it was; the stock of
  every product is what it was plus the quantities of the line items of the selected
  reservations that reference it; no product is added or removed and no other table
  changes.
\<close>

lemma cancelar_expiradas_exatamente:
  assumes dist: "distinct (map rp_id (reservas_produtos d))"
      and fk: "\<forall>r\<in>set (reservas_produtos d). expirada b l a r \<longrightarrow>
                 itens_ok (itens_reserva d) (map p_id (produtos d)) r"
  shows "\<exists>d'. cancelar_expiradas b l a d = (d', Inr ()) \<and>
           reservas_produtos d' =
             map (\<lambda>r. if expirada b l a r then r\<lparr>rp_status := ''CANCELADO''\<rparr> else r)
               (reservas_produtos d) \<and>
           (\<forall>r. expirada b l a r \<longleftrightarrow>
                  rp_loja_id r = l \<and> rp_status r = ''RESERVADO'' \<and>
                  ((\<exists>limite. data_limite r = Some limite \<and> limite < a) \<or>
                   mais_4_dias_menor b (data_reserva r) a)) \<and>
           (\<forall>x. estoque_de (produtos d') x =
                  map_option (\<lambda>e. e + quantidade_devolvida b l a d x) (estoque_de (produtos d) x)) \<and>
           map p_id (produtos d') = map p_id (produtos d) \<and>
           d' = d\<lparr>reservas_produtos := reservas_produtos d', produtos := produtos d'\<rparr>"
proof -
  from cancelar_expiradas_sem_falha [OF dist fk] obtain ps' where
    r: "cancelar_expiradas b l a d =
           (d\<lparr>reservas_produtos :=
                 map (\<lambda>r. if expirada b l a r then r\<lparr>rp_status := ''CANCELADO''\<rparr> else r)
                   (reservas_produtos d),
              produtos := ps'\<rparr>, Inr ())"
    and ids: "map p_id ps' = map p_id (produtos d)"
    and f: "\<And>x. find (\<lambda>p. p_id p = x) ps' =
                 map_option (\<lambda>p. p\<lparr>quantidade_estoque :=
                                     quantidade_estoque p + quantidade_devolvida b l a d x\<rparr>)
                   (find (\<lambda>p. p_id p = x) (produtos d))"
    by blast
  have e: "expirada b l a r \<longleftrightarrow>
             rp_loja_id r = l \<and> rp_status r = ''RESERVADO'' \<and>
             ((\<exists>limite. data_limite r = Some limite \<and> limite < a) \<or>
              mais_4_dias_menor b (data_reserva r) a)" for r
    by (auto simp: expirada_def expirada_2dias_def expirada_4dias_def split: option.splits)
  have st: "estoque_de ps' x =
              map_option (\<lambda>e. e + quantidade_devolvida b l a d x) (estoque_de (produtos d) x)" for x
    by (simp add: estoque_de_def f option.map_comp comp_def)
  show ?thesis
    unfolding r
    apply (intro exI conjI)
    apply (rule refl)
    using e st ids
    apply simp_all
    done
qed

text \<open>
  C4, at concrete inputs. Reservation 2 of the example database, of store 1, was made at
  \<open>agora_ex\<close> and expires two days later. One hour after \<open>agora_ex\<close> neither its expiry
  nor its creation plus four days has passed. With SQLite the sweep of store 1 cancels it
  all the same and adds its line item to the stock of product 1, which becomes 8; with
  PostgreSQL the reservation stays RESERVADO and the stock becomes 7, from the expired
  reservation 1 alone. And where product 2 has been removed, which SQLite allows, the
  sweep raises at reservation 1 and leaves it RESERVADO although it has expired.
\<close>

theorem cancelar_expiradas_sqlite_uma_hora:
  "find (\<lambda>r. rp_id r = 2) (reservas_produtos db_ex) =
     Some \<lparr>rp_id = 2, rp_cliente_id = 2, rp_loja_id = 1, data_reserva = agora_ex,
           rp_status = ''RESERVADO'', data_limite = Some (agora_ex + timedelta_days 2)\<rparr> \<and>
   \<not> agora_ex + timedelta_days 2 < agora_ex + segundos 3600 \<and>
   \<not> agora_ex + timedelta_days 4 < agora_ex + segundos 3600 \<and>
   snd (cancelar_expiradas sqlite 1 (agora_ex + segundos 3600) db_ex) = Inr () \<and>
   map rp_status
     (reservas_produtos (fst (cancelar_expiradas sqlite 1 (agora_ex + segundos 3600) db_ex))) =
     [''CANCELADO'', ''CANCELADO'', ''RETIRADO''] \<and>
   estoque_de (produtos (fst (cancelar_expiradas sqlite 1 (agora_ex + segundos 3600) db_ex))) 1 =
     Some 8 \<and>
   map rp_status
     (reservas_produtos (fst (cancelar_expiradas postgresql 1 (agora_ex + segundos 3600) db_ex))) =
     [''CANCELADO'', ''RESERVADO'', ''RETIRADO''] \<and>
   estoque_de (produtos (fst (cancelar_expiradas postgresql 1 (agora_ex + segundos 3600) db_ex))) 1 =
     Some 7 \<and>
   cancelar_expiradas sqlite 1 agora_ex db_sem_produto = (db_sem_produto, Inl AttributeError) \<and>
   status_de db_sem_produto 1 = Some ''RESERVADO''"
  by (simp add: cancelar_expiradas_def expirada_2dias_def expirada_4dias_def alterar_estoque_def
        alterar_status_def estoque_de_def status_de_def sqlite_def postgresql_def
        db_sem_produto_def remover_produto_def db_varredura_def db_ex_def
        timedelta_days_def segundos_def agora_ex_def)

lemma cancelar_reservas_prefixo:
  "cancelar_reservas rs d =
     (fst (cancelar_reservas
             (takeWhile (itens_ok (itens_reserva d) (map p_id (produtos d))) rs) d),
      if \<forall>r\<in>set rs. itens_ok (itens_reserva d) (map p_id (produtos d)) r
      then None else Some AttributeError)"
proof (induction rs arbitrary: d)
  case Nil
  then show ?case by simp
next
  case (Cons r rs)
  let ?ok = "itens_ok (itens_reserva d) (map p_id (produtos d))"
  let ?its = "filter (\<lambda>i. reserva_id i = rp_id r) (itens_reserva d)"
  show ?case
  proof (cases "?ok r")
    case True
    then have "\<forall>i\<in>set ?its. ir_produto_id i \<in> set (map p_id (produtos d))"
      by (auto simp: itens_ok_def)
    from devolver_estoque_ok [OF this] obtain ps1 where
      dv: "devolver_estoque ?its (produtos d) = Inr ps1" and
      ids1: "map p_id ps1 = map p_id (produtos d)"
      by blast
    let ?d1 = "d\<lparr>reservas_produtos := alterar_status (rp_id r) ''CANCELADO'' (reservas_produtos d),
                 produtos := ps1\<rparr>"
    have ok1: "itens_ok (itens_reserva ?d1) (map p_id (produtos ?d1)) = ?ok"
      by (simp add: ids1)
    have "cancelar_reservas (r # rs) d = cancelar_reservas rs ?d1"
      using dv by simp
    also have "\<dots> = (fst (cancelar_reservas (takeWhile ?ok rs) ?d1),
                      if \<forall>r\<in>set rs. ?ok r then None else Some AttributeError)"
      using Cons.IH [of ?d1] unfolding ok1 .
    also have "cancelar_reservas (takeWhile ?ok rs) ?d1 =
               cancelar_reservas (takeWhile ?ok (r # rs)) d"
      using dv True by simp
    finally show ?thesis
      using True by simp
  next
    case False
    then have "\<not> (\<forall>i\<in>set ?its. ir_produto_id i \<in> set (map p_id (produtos d)))"
      by (auto simp: itens_ok_def)
    from devolver_estoque_falha [OF this] False show ?thesis
      by simp
  qed
qed

lemma filter_fora_do_prefixo:
  assumes "distinct (map f (xs @ ys))"
  shows "filter (\<lambda>x. f x \<notin> set (map f xs)) (xs @ ys) = ys"
proof -
  have "filter (\<lambda>x. f x \<notin> set (map f xs)) xs = []"
    by (auto simp: filter_empty_conv)
  moreover have "filter (\<lambda>x. f x \<notin> set (map f xs)) ys = ys"
    using assms by (auto simp: filter_id_conv)
  ultimately show ?thesis by simp
qed

lemma takeWhile_dropWhile_vazio: "takeWhile P (dropWhile P xs) = []"
  by (induction xs) auto

lemma todos_dropWhile: "(\<forall>x\<in>set (dropWhile P xs). P x) \<longleftrightarrow> (\<forall>x\<in>set xs. P x)"
  by (induction xs) auto

lemma passo_idempotente:
  assumes dist: "distinct (map rp_id (reservas_produtos d))"
      and g1: "\<And>r. P r \<Longrightarrow> rp_status r = ''RESERVADO''"
      and g2: "\<And>r s. rp_status r = ''RESERVADO'' \<Longrightarrow>
                 P (r\<lparr>rp_status := s\<rparr>) = (P r \<and> s = ''RESERVADO'')"
  shows "\<exists>d1 e1. cancelar_reservas (filter P (reservas_produtos d)) d = (d1, e1) \<and>
           cancelar_reservas (filter P (reservas_produtos d1)) d1 = (d1, e1) \<and>
           (e1 = None \<longrightarrow> filter P (reservas_produtos d1) = []) \<and>
           map rp_id (reservas_produtos d1) = map rp_id (reservas_produtos d)"
proof -
  let ?xs = "reservas_produtos d"
  let ?rs = "filter P ?xs"
  let ?ok = "itens_ok (itens_reserva d) (map p_id (produtos d))"
  let ?pre = "takeWhile ?ok ?rs"
  let ?e1 = "if \<forall>r\<in>set ?rs. ?ok r then None else Some AttributeError"
  have "\<forall>r\<in>set ?pre. ?ok r"
    by (auto dest: set_takeWhileD)
  from cancelar_reservas_ok [OF this] obtain ps' where
    c: "cancelar_reservas ?pre d =
          (d\<lparr>reservas_produtos := marcar_canceladas (map rp_id ?pre) ?xs, produtos := ps'\<rparr>, None)"
    and ids: "map p_id ps' = map p_id (produtos d)"
    by blast
  let ?d1 = "d\<lparr>reservas_produtos := marcar_canceladas (map rp_id ?pre) ?xs, produtos := ps'\<rparr>"
  have r1: "cancelar_reservas ?rs d = (?d1, ?e1)"
    using cancelar_reservas_prefixo [of ?rs d] c by simp
  have "filter P (marcar_canceladas (map rp_id ?pre) ?xs) =
        filter (\<lambda>r. P r \<and> rp_id r \<notin> set (map rp_id ?pre)) ?xs"
    by (rule filter_marcar_canceladas [OF g1 g2])
  also have "\<dots> = filter (\<lambda>r. rp_id r \<notin> set (map rp_id ?pre)) ?rs"
    by (simp add: conj_commute)
  also have "\<dots> = filter (\<lambda>r. rp_id r \<notin> set (map rp_id ?pre)) (?pre @ dropWhile ?ok ?rs)"
    by (simp only: takeWhile_dropWhile_id)
  also have "\<dots> = dropWhile ?ok ?rs"
  proof (rule filter_fora_do_prefixo)
    have "distinct (map rp_id ?rs)"
      using dist by (simp add: distinct_map_filter)
    then show "distinct (map rp_id (?pre @ dropWhile ?ok ?rs))"
      by (simp only: takeWhile_dropWhile_id)
  qed
  finally have f1: "filter P (reservas_produtos ?d1) = dropWhile ?ok ?rs"
    by simp
  have ok1: "itens_ok (itens_reserva ?d1) (map p_id (produtos ?d1)) = ?ok"
    by (simp add: ids)
  have r2: "cancelar_reservas (filter P (reservas_produtos ?d1)) ?d1 = (?d1, ?e1)"
    unfolding f1
    using cancelar_reservas_prefixo [of "dropWhile ?ok ?rs" ?d1]
    unfolding ok1 takeWhile_dropWhile_vazio todos_dropWhile
    by simp
  have r3: "?e1 = None \<longrightarrow> filter P (reservas_produtos ?d1) = []"
    unfolding f1 by (auto simp: dropWhile_eq_Nil_conv split: if_splits)
  have r4: "map rp_id (reservas_produtos ?d1) = map rp_id ?xs"
    by (simp add: marcar_canceladas_def comp_def)
  show ?thesis
    by (intro exI [of _ ?d1] exI [of _ ?e1] conjI r1 r2 r3 r4)
qed

lemma passo_mantem_vazio:
  assumes "filter P (reservas_produtos d) = []"
      and g1: "\<And>r. P r \<Longrightarrow> rp_status r = ''RESERVADO''"
      and g2: "\<And>r s. rp_status r = ''RESERVADO'' \<Longrightarrow>
                 P (r\<lparr>rp_status := s\<rparr>) = (P r \<and> s = ''RESERVADO'')"
  shows "filter P (reservas_produtos (fst (cancelar_reservas rs d))) = []"
proof -
  let ?ok = "itens_ok (itens_reserva d) (map p_id (produtos d))"
  let ?pre = "takeWhile ?ok rs"
  have "\<forall>r\<in>set ?pre. ?ok r"
    by (auto dest: set_takeWhileD)
  from cancelar_reservas_ok [OF this] obtain ps' where
    c: "cancelar_reservas ?pre d =
          (d\<lparr>reservas_produtos := marcar_canceladas (map rp_id ?pre) (reservas_produtos d),
             produtos := ps'\<rparr>, None)"
    by blast
  have "fst (cancelar_reservas rs d) =
          d\<lparr>reservas_produtos := marcar_canceladas (map rp_id ?pre) (reservas_produtos d),
            produtos := ps'\<rparr>"
    using cancelar_reservas_prefixo [of rs d] c by simp
  moreover have "filter P (marcar_canceladas (map rp_id ?pre) (reservas_produtos d)) =
        filter (\<lambda>r. P r \<and> rp_id r \<notin> set (map rp_id ?pre)) (reservas_produtos d)"
    by (rule filter_marcar_canceladas [OF g1 g2])
  moreover have "\<dots> = []"
    using assms(1) by (auto simp: filter_empty_conv)
  ultimately show ?thesis by simp
qed

section \<open>The sweep run twice\<close>

text \<open>
  C5. Where the reservations have distinct ids, running \<open>cancelar_expiradas\<close> for the same
  store and the same \<open>agora\<close> on the database that a first run has left gives that same
  database again, with the answer of the first run: no status and no stock changes in the
  second run. This holds for every database engine and every database, also where the
  first run stops at a line item whose product is missing (the second run then stops at
  the same reservation).
\<close>

theorem cancelar_expiradas_idempotente:
  assumes dist: "distinct (map rp_id (reservas_produtos d))"
  shows "cancelar_expiradas b l a (fst (cancelar_expiradas b l a d)) = cancelar_expiradas b l a d \<and>
         fst (cancelar_expiradas b l a (fst (cancelar_expiradas b l a d))) =
           fst (cancelar_expiradas b l a d) \<and>
         (\<forall>x. estoque_de (produtos (fst (cancelar_expiradas b l a (fst (cancelar_expiradas b l a d))))) x =
               estoque_de (produtos (fst (cancelar_expiradas b l a d))) x) \<and>
         (\<forall>x. status_de (fst (cancelar_expiradas b l a (fst (cancelar_expiradas b l a d)))) x =
               status_de (fst (cancelar_expiradas b l a d)) x)"
proof -
  have g2: "\<And>r. expirada_2dias l a r \<Longrightarrow> rp_status r = ''RESERVADO''"
    "\<And>r s. rp_status r = ''RESERVADO'' \<Longrightarrow>
       expirada_2dias l a (r\<lparr>rp_status := s\<rparr>) = (expirada_2dias l a r \<and> s = ''RESERVADO'')"
    by (auto simp: expirada_2dias_def)
  have g4: "\<And>r. expirada_4dias b l a r \<Longrightarrow> rp_status r = ''RESERVADO''"
    "\<And>r s. rp_status r = ''RESERVADO'' \<Longrightarrow>
       expirada_4dias b l a (r\<lparr>rp_status := s\<rparr>) = (expirada_4dias b l a r \<and> s = ''RESERVADO'')"
    by (auto simp: expirada_4dias_def)
  from passo_idempotente [OF dist g2] obtain d1 e1 where
    p1: "cancelar_reservas (filter (expirada_2dias l a) (reservas_produtos d)) d = (d1, e1)" and
    q1: "cancelar_reservas (filter (expirada_2dias l a) (reservas_produtos d1)) d1 = (d1, e1)" and
    v1: "e1 = None \<longrightarrow> filter (expirada_2dias l a) (reservas_produtos d1) = []" and
    i1: "map rp_id (reservas_produtos d1) = map rp_id (reservas_produtos d)"
    by blast
  have main: "cancelar_expiradas b l a (fst (cancelar_expiradas b l a d)) = cancelar_expiradas b l a d"
  proof (cases e1)
    case (Some e)
    then have "cancelar_expiradas b l a d = (d1, Inl e)"
      by (simp add: cancelar_expiradas_def p1)
    moreover have "cancelar_expiradas b l a d1 = (d1, Inl e)"
      using Some by (simp add: cancelar_expiradas_def q1)
    ultimately show ?thesis by simp
  next
    case None
    have dist1: "distinct (map rp_id (reservas_produtos d1))"
      using dist i1 by simp
    from passo_idempotente [OF dist1 g4] obtain d2 e2 where
      p2: "cancelar_reservas (filter (expirada_4dias b l a) (reservas_produtos d1)) d1 = (d2, e2)" and
      q2: "cancelar_reservas (filter (expirada_4dias b l a) (reservas_produtos d2)) d2 = (d2, e2)"
      by blast
    have r1: "cancelar_expiradas b l a d = (d2, case e2 of None \<Rightarrow> Inr () | Some e \<Rightarrow> Inl e)"
      using None by (simp add: cancelar_expiradas_def p1 p2 split: option.splits)
    have "filter (expirada_2dias l a) (reservas_produtos d1) = []"
      using v1 None by simp
    from passo_mantem_vazio [OF this g2, of "filter (expirada_4dias b l a) (reservas_produtos d1)"]
    have "filter (expirada_2dias l a) (reservas_produtos d2) = []"
      by (simp add: p2)
    then have "cancelar_expiradas b l a d2 = (d2, case e2 of None \<Rightarrow> Inr () | Some e \<Rightarrow> Inl e)"
      by (simp add: cancelar_expiradas_def q2 split: option.splits)
    with r1 show ?thesis by simp
  qed
  then show ?thesis by simp
qed

theorem cancelar_expiradas_idempotente_witness:
  "cancelar_expiradas sqlite 1 agora_ex (fst (cancelar_expiradas sqlite 1 agora_ex db_varredura)) =
     cancelar_expiradas sqlite 1 agora_ex db_varredura \<and>
   estoque_de (produtos (fst (cancelar_expiradas sqlite 1 agora_ex
      (fst (cancelar_expiradas sqlite 1 agora_ex db_varredura))))) 1 = Some 8 \<and>
   cancelar_expiradas postgresql 1 agora_ex
       (fst (cancelar_expiradas postgresql 1 agora_ex db_varredura)) =
     cancelar_expiradas postgresql 1 agora_ex db_varredura \<and>
   estoque_de (produtos (fst (cancelar_expiradas postgresql 1 agora_ex
      (fst (cancelar_expiradas postgresql 1 agora_ex db_varredura))))) 1 = Some 7 \<and>
   cancelar_expiradas sqlite 1 agora_ex (fst (cancelar_expiradas sqlite 1 agora_ex db_sem_produto)) =
     (db_sem_produto, Inl AttributeError)"
proof -
  have dist: "distinct (map rp_id (reservas_produtos db_varredura))"
    by (simp add: db_varredura_def db_ex_def)
  have dist': "distinct (map rp_id (reservas_produtos db_sem_produto))"
    by (simp add: db_sem_produto_def remover_produto_def sqlite_def db_varredura_def db_ex_def)
  have e: "estoque_de (produtos (fst (cancelar_expiradas sqlite 1 agora_ex db_varredura))) 1 = Some 8"
    by (simp add: cancelar_expiradas_def expirada_2dias_def expirada_4dias_def alterar_estoque_def
          alterar_status_def estoque_de_def sqlite_def db_varredura_def db_ex_def timedelta_days_def
          agora_ex_def)
  have e': "estoque_de (produtos (fst (cancelar_expiradas postgresql 1 agora_ex db_varredura))) 1 =
              Some 7"
    by (simp add: cancelar_expiradas_def expirada_2dias_def expirada_4dias_def alterar_estoque_def
          alterar_status_def estoque_de_def postgresql_def db_varredura_def db_ex_def
          timedelta_days_def agora_ex_def)
  have f: "cancelar_expiradas sqlite 1 agora_ex db_sem_produto = (db_sem_produto, Inl AttributeError)"
    by (simp add: cancelar_expiradas_def expirada_2dias_def expirada_4dias_def alterar_estoque_def
          alterar_status_def db_sem_produto_def remover_produto_def sqlite_def db_varredura_def
          db_ex_def timedelta_days_def agora_ex_def)
  show ?thesis
    using cancelar_expiradas_idempotente [OF dist, of sqlite 1 agora_ex]
          cancelar_expiradas_idempotente [OF dist, of postgresql 1 agora_ex]
          cancelar_expiradas_idempotente [OF dist', of sqlite 1 agora_ex] e e' f
    by simp
qed

section \<open>What every operation keeps\<close>

lemma inv_cadastrar:
  assumes "invariante_estoque d" and "entrada_valida (CadastrarProduto l n pr q a)"
  shows "invariante_estoque (fst (cadastrar_produto_com_imagem l n pr q a d))"
  using assms novo_id_fresco [of "map p_id (produtos d)"]
  by (auto simp: cadastrar_produto_com_imagem_def invariante_estoque_def estoque_nao_negativo_def
        carrinho_unico_def Let_def split: option.splits)

lemma inv_remover_produto:
  assumes "invariante_estoque d"
  shows "invariante_estoque (fst (remover_produto b l pid d))"
  using assms
  by (auto simp: remover_produto_def invariante_estoque_def estoque_nao_negativo_def
        carrinho_unico_def distinct_map_filter split: option.splits)

lemma quantidades_adicionar:
  assumes "\<forall>c\<in>set (carrinho d). 0 \<le> c_quantidade c"
      and "entrada_valida (AdicionarItem cid dados)"
  shows "\<forall>c\<in>set (carrinho (fst (adicionar_item_carrinho cid dados d))). 0 \<le> c_quantidade c"
  using assms
  by (auto simp: adicionar_item_carrinho_def Let_def split: option.splits sum.splits)

lemma outras_adicionar:
  "produtos (fst (adicionar_item_carrinho cid dados d)) = produtos d \<and>
   itens_reserva (fst (adicionar_item_carrinho cid dados d)) = itens_reserva d"
  by (auto simp: adicionar_item_carrinho_def Let_def split: option.splits sum.splits)

lemma inv_adicionar:
  assumes "invariante_estoque d" and "entrada_valida (AdicionarItem cid dados)"
  shows "invariante_estoque (fst (adicionar_item_carrinho cid dados d))"
  using assms unico_adicionar [of d cid dados] quantidades_adicionar [of d cid dados]
    outras_adicionar [of cid dados d]
  by (simp add: invariante_estoque_def estoque_nao_negativo_def)

lemma inv_remover_item:
  assumes "invariante_estoque d"
  shows "invariante_estoque (fst (remover_item_carrinho cid arg d))"
  using assms unico_remover [of d cid arg]
  by (auto simp: remover_item_carrinho_def invariante_estoque_def estoque_nao_negativo_def
        split: option.splits)

lemma inv_retirada_loja:
  assumes "invariante_estoque d"
  shows "invariante_estoque (fst (marcar_retirada l rid d))"
  using assms
  by (auto simp: marcar_retirada_def invariante_estoque_def estoque_nao_negativo_def
        carrinho_unico_def split: option.splits)

lemma inv_retirada_cliente:
  assumes "invariante_estoque d"
  shows "invariante_estoque (fst (cliente_marcar_retirada c rid a d))"
  using assms
  by (auto simp: cliente_marcar_retirada_def invariante_estoque_def estoque_nao_negativo_def
        carrinho_unico_def split: option.splits)

lemma alterar_estoque_nao_negativo:
  assumes "alterar_estoque pid delta ps = Inr ps'" and "0 \<le> delta"
      and "\<forall>p\<in>set ps. 0 \<le> quantidade_estoque p"
  shows "\<forall>p\<in>set ps'. 0 \<le> quantidade_estoque p"
  using assms by (auto simp: alterar_estoque_def split: option.splits)

lemma devolver_estoque_nao_negativo:
  assumes "devolver_estoque itens ps = Inr ps'"
      and "\<forall>i\<in>set itens. 0 \<le> ir_quantidade i"
      and "\<forall>p\<in>set ps. 0 \<le> quantidade_estoque p"
  shows "(\<forall>p\<in>set ps'. 0 \<le> quantidade_estoque p) \<and> map p_id ps' = map p_id ps"
  using assms
proof (induction itens arbitrary: ps)
  case Nil
  then show ?case by simp
next
  case (Cons i itens)
  from Cons.prems(1) obtain ps1 where
    a: "alterar_estoque (ir_produto_id i) (ir_quantidade i) ps = Inr ps1" and
    d: "devolver_estoque itens ps1 = Inr ps'"
    by (auto split: sum.splits)
  have n1: "\<forall>p\<in>set ps1. 0 \<le> quantidade_estoque p"
    using alterar_estoque_nao_negativo [OF a] Cons.prems by simp
  have "map p_id ps1 = map p_id ps"
    by (rule alterar_estoque_ids [OF a])
  with Cons.IH [OF d _ n1] Cons.prems(2) show ?case by simp
qed

lemma inv_cancelar_reservas:
  assumes "invariante_estoque d"
  shows "invariante_estoque (fst (cancelar_reservas rs d))"
  using assms
proof (induction rs arbitrary: d)
  case Nil
  then show ?case by simp
next
  case (Cons r rs)
  let ?its = "filter (\<lambda>i. reserva_id i = rp_id r) (itens_reserva d)"
  show ?case
  proof (cases "devolver_estoque ?its (produtos d)")
    case (Inl e)
    with Cons.prems show ?thesis by simp
  next
    case (Inr ps)
    have "(\<forall>p\<in>set ps. 0 \<le> quantidade_estoque p) \<and> map p_id ps = map p_id (produtos d)"
      using devolver_estoque_nao_negativo [OF Inr] Cons.prems
      by (simp add: invariante_estoque_def estoque_nao_negativo_def)
    then have "invariante_estoque
                 (d\<lparr>reservas_produtos := alterar_status (rp_id r) ''CANCELADO'' (reservas_produtos d),
                    produtos := ps\<rparr>)"
      using Cons.prems
      by (simp add: invariante_estoque_def estoque_nao_negativo_def carrinho_unico_def)
    from Cons.IH [OF this] Inr show ?thesis by simp
  qed
qed

lemma inv_cancelar_expiradas:
  assumes "invariante_estoque d"
  shows "invariante_estoque (fst (cancelar_expiradas b l a d))"
proof -
  let ?c1 = "cancelar_reservas (filter (expirada_2dias l a) (reservas_produtos d)) d"
  let ?c2 = "cancelar_reservas (filter (expirada_4dias b l a) (reservas_produtos (fst ?c1))) (fst ?c1)"
  have i1: "invariante_estoque (fst ?c1)"
    by (rule inv_cancelar_reservas [OF assms])
  have i2: "invariante_estoque (fst ?c2)"
    by (rule inv_cancelar_reservas [OF i1])
  have "fst (cancelar_expiradas b l a d) = fst ?c1 \<or> fst (cancelar_expiradas b l a d) = fst ?c2"
    by (cases ?c1; cases ?c2) (auto simp: cancelar_expiradas_def split: option.splits)
  with i1 i2 show ?thesis by auto
qed

lemma abater_estoque_ids: "map p_id (fst (abater_estoque itens ps)) = map p_id ps"
proof (induction itens arbitrary: ps)
  case Nil
  then show ?case by simp
next
  case (Cons i itens)
  then show ?case
    by (cases "alterar_estoque (c_produto_id i) (- c_quantidade i) ps")
       (simp_all add: alterar_estoque_ids)
qed

lemma find_distinto:
  "distinct (map f xs) \<Longrightarrow> y \<in> set xs \<Longrightarrow> find (\<lambda>z. f z = f y) xs = Some y"
proof (induction xs)
  case Nil
  then show ?case by simp
next
  case (Cons a xs)
  then show ?case by (auto simp: image_iff)
qed

lemma list_all2_esquerda:
  "list_all2 R xs ys \<Longrightarrow> x \<in> set xs \<Longrightarrow> \<exists>y\<in>set ys. R x y"
  by (induction rule: list_all2_induct) auto

lemma inv_finalizar:
  assumes inv: "invariante_estoque d"
  shows "invariante_estoque (fst (finalizar_carrinho cid agora d))"
proof (cases "snd (finalizar_carrinho cid agora d)")
  case (Inl e)
  from finalizar_carrinho_falha [OF Inl] inv show ?thesis by simp
next
  case (Inr res)
  let ?itens = "filter (\<lambda>c. c_cliente_id c = cid) (carrinho d)"
  let ?ps = "produtos d"
  let ?ps' = "fst (abater_estoque ?itens ?ps)"
  have ne: "?itens \<noteq> []"
    using Inr by (auto simp: finalizar_carrinho_def)
  obtain lo where v: "validar_carrinho ?itens ?ps None = Inr lo"
    using Inr ne by (cases "validar_carrinho ?itens ?ps None") (auto simp: finalizar_carrinho_def)
  from finalizar_carrinho_validado [OF v ne, of agora] obtain l novos where
    la: "list_all2 (\<lambda>x i. reserva_id x = novo_id (map rp_id (reservas_produtos d)) \<and>
                        ir_produto_id x = c_produto_id i \<and> ir_quantidade x = c_quantidade i \<and>
                        map_option preco (find (\<lambda>p. p_id p = c_produto_id i) ?ps) =
                          Some (preco_unitario x)) novos ?itens"
    and r: "finalizar_carrinho cid agora d =
             (d\<lparr>produtos := ?ps',
                reservas_produtos := reservas_produtos d @
                  [\<lparr>rp_id = novo_id (map rp_id (reservas_produtos d)), rp_cliente_id = cid,
                    rp_loja_id = l, data_reserva = agora, rp_status = ''RESERVADO'',
                    data_limite = Some (agora + timedelta_days 2)\<rparr>],
                itens_reserva := itens_reserva d @ novos,
                carrinho := filter (\<lambda>c. c_id c \<notin> set (map c_id ?itens)) (carrinho d)\<rparr>,
              Inr (novo_id (map rp_id (reservas_produtos d)), Some (agora + timedelta_days 2)))"
    by blast
  have val: "\<forall>i\<in>set ?itens. \<exists>p. find (\<lambda>x. p_id x = c_produto_id i) ?ps = Some p \<and>
               c_quantidade i \<le> quantidade_estoque p"
    using validar_carrinho_Inr [OF v] by blast
  have ex: "\<forall>i\<in>set ?itens. find (\<lambda>p. p_id p = c_produto_id i) ?ps \<noteq> None"
    using val by fastforce
  have f: "find (\<lambda>p. p_id p = x) ?ps' =
             map_option (\<lambda>p. p\<lparr>quantidade_estoque := quantidade_estoque p - quantidade_pedida ?itens x\<rparr>)
               (find (\<lambda>p. p_id p = x) ?ps)" for x
    using abater_estoque_ok [OF ex] by simp
  have dps: "distinct (map p_id ?ps)" and nn: "\<forall>p\<in>set ?ps. 0 \<le> quantidade_estoque p"
    and un: "carrinho_unico d" and cq: "\<forall>c\<in>set (carrinho d). 0 \<le> c_quantidade c"
    and iq: "\<forall>i\<in>set (itens_reserva d). 0 \<le> ir_quantidade i"
    using inv by (simp_all add: invariante_estoque_def estoque_nao_negativo_def)
  have ids: "map p_id ?ps' = map p_id ?ps"
    by (rule abater_estoque_ids)
  have pedida: "quantidade_pedida ?itens x \<le> quantidade_estoque p"
    if p: "find (\<lambda>p. p_id p = x) ?ps = Some p" for x p
  proof (cases "\<exists>i\<in>set ?itens. c_produto_id i = x")
    case True
    then obtain i where i: "i \<in> set ?itens" "c_produto_id i = x"
      by blast
    have "quantidade_pedida ?itens (c_produto_id i) = c_quantidade i"
      by (rule quantidade_pedida_unica [OF un i(1)])
    moreover obtain p0 where "find (\<lambda>x. p_id x = c_produto_id i) ?ps = Some p0"
      "c_quantidade i \<le> quantidade_estoque p0"
      using val i(1) by blast
    ultimately show ?thesis
      using i(2) p by simp
  next
    case False
    then have "filter (\<lambda>i. c_produto_id i = x) ?itens = []"
      by (auto simp: filter_empty_conv)
    then have "quantidade_pedida ?itens x = 0"
      by (simp add: quantidade_pedida_def)
    moreover have "p \<in> set ?ps"
      using find_Some_pred [OF p] by simp
    ultimately show ?thesis
      using nn by simp
  qed
  have nn': "\<forall>p'\<in>set ?ps'. 0 \<le> quantidade_estoque p'"
  proof
    fix p' assume m: "p' \<in> set ?ps'"
    have "distinct (map p_id ?ps')"
      using dps ids by simp
    from find_distinto [OF this m] have "find (\<lambda>p. p_id p = p_id p') ?ps' = Some p'" .
    with f [of "p_id p'"] obtain p where p: "find (\<lambda>p. p_id p = p_id p') ?ps = Some p"
      and e: "p' = p\<lparr>quantidade_estoque :=
                     quantidade_estoque p - quantidade_pedida ?itens (p_id p')\<rparr>"
      by (cases "find (\<lambda>p. p_id p = p_id p') ?ps") auto
    from pedida [OF p] have "0 \<le> quantidade_estoque p - quantidade_pedida ?itens (p_id p')"
      by simp
    then show "0 \<le> quantidade_estoque p'"
      by (subst e) simp
  qed
  have iq': "\<forall>x\<in>set novos. 0 \<le> ir_quantidade x"
  proof
    fix x assume "x \<in> set novos"
    from list_all2_esquerda [OF la this] obtain i where "i \<in> set ?itens"
      "ir_quantidade x = c_quantidade i"
      by blast
    with cq show "0 \<le> ir_quantidade x" by simp
  qed
  have un': "carrinho_unico (fst (finalizar_carrinho cid agora d))"
    by (rule unico_finalizar [OF un])
  show ?thesis
    using un' dps ids nn' cq iq iq' unfolding r
    by (auto simp: invariante_estoque_def estoque_nao_negativo_def)
qed

lemma inv_executar:
  assumes "invariante_estoque d" and "entrada_valida op"
  shows "invariante_estoque (executar b op d)"
proof (cases op)
  case (CadastrarProduto l n pr q a)
  with assms inv_cadastrar [of d l n pr q a] show ?thesis by simp
next
  case (RemoverProduto l pid)
  with assms inv_remover_produto show ?thesis by simp
next
  case (AdicionarItem cid dados)
  with assms inv_adicionar [of d cid dados] show ?thesis by simp
next
  case (RemoverItem cid arg)
  with assms inv_remover_item show ?thesis by simp
next
  case (Finalizar cid agora)
  with assms inv_finalizar show ?thesis by simp
next
  case (RetiradaLoja l rid)
  with assms inv_retirada_loja show ?thesis by simp
next
  case (RetiradaCliente cid rid agora)
  with assms inv_retirada_cliente show ?thesis by simp
next
  case (CancelarExpiradas l agora)
  with assms inv_cancelar_expiradas show ?thesis by simp
qed

lemma inv_fold:
  assumes "invariante_estoque d" and "list_all entrada_valida ops"
  shows "invariante_estoque (fold (executar b) ops d)"
  using assms
proof (induction ops arbitrary: d)
  case Nil
  then show ?case by simp
next
  case (Cons op ops)
  then show ?case
    using inv_executar [of d op b] by simp
qed

section \<open>Stock is never negative\<close>

text \<open>
  C3, at concrete inputs. Registering a product with the quantity -5 stores the stock -5.
  And with registrations of non-negative quantities only: customer 1 puts -3 of a product
  with stock 0 in the cart and checks out (the stock becomes 3), customer 2 reserves 3 and
  picks them up, and the sweep then cancels the reservation of customer 1 and adds -3 to
  the stock 0. Both happen with either database engine.
\<close>

theorem estoque_negativo_contraexemplo:
  "estoque_de (produtos (executar sqlite
      (CadastrarProduto 1 ''camara'' (Some 20) (Some (- 5)) (Some ''image/png''))
      (db_inicial [1, 2] [1]))) 1 = Some (- 5) \<and>
   estoque_de (produtos (fold (executar sqlite)
      [CadastrarProduto 1 ''pneu'' (Some 50) (Some 0) (Some ''image/png''),
       AdicionarItem 1 (Some (Some 1, Some (- 3))),
       Finalizar 1 0,
       AdicionarItem 2 (Some (Some 1, Some 3)),
       Finalizar 2 0,
       RetiradaLoja 1 2,
       CancelarExpiradas 1 (timedelta_days 5)]
      (db_inicial [1, 2] [1]))) 1 = Some (- 3) \<and>
   estoque_de (produtos (fold (executar postgresql)
      [CadastrarProduto 1 ''pneu'' (Some 50) (Some 0) (Some ''image/png''),
       AdicionarItem 1 (Some (Some 1, Some (- 3))),
       Finalizar 1 0,
       AdicionarItem 2 (Some (Some 1, Some 3)),
       Finalizar 2 0,
       RetiradaLoja 1 2,
       CancelarExpiradas 1 (timedelta_days 5)]
      (db_inicial [1, 2] [1]))) 1 = Some (- 3)"
  by (simp add: cadastrar_produto_com_imagem_def adicionar_item_carrinho_def
        verificar_loja_carrinho_def finalizar_carrinho_def marcar_retirada_def
        cancelar_expiradas_def expirada_2dias_def expirada_4dias_def alterar_estoque_def
        alterar_status_def estoque_de_def db_inicial_def novo_id_def timedelta_days_def Let_def
        sqlite_def postgresql_def)

text \<open>
  C3, amended. Start from a database without products, cart lines and line items, and run
  any sequence of product registrations and removals, cart additions and removals,
  checkouts, pickups by the store or the customer and expiry sweeps, in which no
  registration gives a negative stock quantity and no cart addition a negative quantity.
  Then no product has a negative stock, before and after every further such operation,
  whatever the database engine.
\<close>

theorem estoque_nunca_negativo:
  assumes "produtos d0 = []" and "carrinho d0 = []" and "itens_reserva d0 = []"
      and "list_all entrada_valida ops" and "entrada_valida op"
  shows "estoque_nao_negativo (fold (executar b) ops d0) \<and>
         estoque_nao_negativo (executar b op (fold (executar b) ops d0))"
proof -
  have "invariante_estoque d0"
    using assms(1-3)
    by (simp add: invariante_estoque_def estoque_nao_negativo_def carrinho_unico_def)
  then have i: "invariante_estoque (fold (executar b) ops d0)"
    using assms(4) by (rule inv_fold)
  then have "invariante_estoque (executar b op (fold (executar b) ops d0))"
    using assms(5) by (rule inv_executar)
  with i show ?thesis
    by (simp add: invariante_estoque_def)
qed

theorem estoque_nunca_negativo_witness:
  "estoque_nao_negativo (fold (executar sqlite)
      [CadastrarProduto 1 ''pneu'' (Some 50) (Some 5) (Some ''image/png''),
       AdicionarItem 1 (Some (Some 1, Some 3)),
       Finalizar 1 0] (db_inicial [1, 2] [1])) \<and>
   estoque_nao_negativo (executar sqlite (CancelarExpiradas 1 (timedelta_days 5)) (fold (executar sqlite)
      [CadastrarProduto 1 ''pneu'' (Some 50) (Some 5) (Some ''image/png''),
       AdicionarItem 1 (Some (Some 1, Some 3)),
       Finalizar 1 0] (db_inicial [1, 2] [1]))) \<and>
   estoque_de (produtos (fold (executar sqlite)
      [CadastrarProduto 1 ''pneu'' (Some 50) (Some 5) (Some ''image/png''),
       AdicionarItem 1 (Some (Some 1, Some 3)),
       Finalizar 1 0] (db_inicial [1, 2] [1]))) 1 = Some 2"
proof -
  let ?ops = "[CadastrarProduto 1 ''pneu'' (Some 50) (Some 5) (Some ''image/png''),
       AdicionarItem 1 (Some (Some 1, Some 3)),
       Finalizar 1 0]"
  have v: "list_all entrada_valida ?ops" "entrada_valida (CancelarExpiradas 1 (timedelta_days 5))"
    by simp_all
  have z: "produtos (db_inicial [1, 2] [1]) = []" "carrinho (db_inicial [1, 2] [1]) = []"
    "itens_reserva (db_inicial [1, 2] [1]) = []"
    by (simp_all add: db_inicial_def)
  have e: "estoque_de (produtos (fold (executar sqlite) ?ops (db_inicial [1, 2] [1]))) 1 = Some 2"
    by (simp add: cadastrar_produto_com_imagem_def adicionar_item_carrinho_def
        verificar_loja_carrinho_def finalizar_carrinho_def alterar_estoque_def
        estoque_de_def db_inicial_def novo_id_def Let_def)
  show ?thesis
    using estoque_nunca_negativo [OF z v, of sqlite] e by simp
qed

end
